theory Spec2Isabelle
  imports Complex_Main "HOL-Library.Sublist"
begin

section \<open>The customer entity and the CSV loader (Customer.java, DataLoader.java)\<close>

text \<open>
  \<open>Customer\<close> is the JPA entity of \<open>Customer.java\<close>. The \<open>int\<close> fields are Java ints
  (their range is enforced by \<open>parseInt\<close> below, the only place that produces them); the
  \<open>Double\<close> fields carry the numeric value of a finite double as a real. The \<open>id\<close> (here
  \<open>id'\<close>) is generated by the database on insertion and is \<open>None\<close> on a fresh entity.
\<close>

record Customer =
  id' :: "nat option"
  customerId :: string
  gender :: string
  seniorCitizen :: int
  partner :: string
  dependents :: string
  tenure :: int
  phoneService :: string
  multipleLines :: string
  internetService :: string
  onlineSecurity :: string
  onlineBackup :: string
  deviceProtection :: string
  techSupport :: string
  streamingTV :: string
  streamingMovies :: string
  contract :: string
  paperlessBilling :: string
  paymentMethod :: string
  monthlyCharges :: real
  totalCharges :: real
  churn :: string

text \<open>The exceptions \<open>loadData\<close> can meet; all of them are caught by its \<open>catch (Exception e)\<close>.\<close>

datatype load_error = NumberFormatException | ArrayIndexOutOfBoundsException | IOException

subsection \<open>Library functions of the JDK used by the loader\<close>

text \<open>
  \<open>line.split(",(?=([^\"]*\"[^\"]*\")*[^\"]*$)", -1)\<close>: a comma separates two fields when the
  rest of the line after it holds an even number of double quotes (the lookahead pairs the
  quotes up to the end of the input). With the limit \<open>-1\<close> trailing empty fields are kept,
  and a line without a separator is returned as its only field.
\<close>

fun split_from :: "string \<Rightarrow> string \<Rightarrow> string list" where
  "split_from cur [] = [rev cur]"
| "split_from cur (c # cs) =
     (if c = CHR '','' \<and> even (count_list cs CHR 0x22)
      then rev cur # split_from [] cs
      else split_from (c # cur) cs)"

definition split_line :: "string \<Rightarrow> string list" where
  "split_line line = split_from [] line"

text \<open>\<open>data[k]\<close> on a Java array: out of range raises.\<close>

definition field :: "string list \<Rightarrow> nat \<Rightarrow> load_error + string" where
  "field data k = (if k < length data then Inr (data ! k) else Inl ArrayIndexOutOfBoundsException)"

text \<open>\<open>String.trim\<close>: drops the leading and trailing characters with code at most U+0020.\<close>

definition is_space :: "char \<Rightarrow> bool" where
  "is_space c = ((of_char c :: nat) \<le> 32)"

definition trim :: "string \<Rightarrow> string" where
  "trim s = rev (dropWhile is_space (rev (dropWhile is_space s)))"

text \<open>
  \<open>Integer.parseInt\<close> (radix 10): an optional sign \<open>+\<close> or \<open>-\<close>, then at least one decimal
  digit, and a value in the range of a 32-bit int; anything else, also surrounding blanks,
  raises \<open>NumberFormatException\<close>.
\<close>

definition digit_of :: "char \<Rightarrow> nat option" where
  "digit_of c = (let n = (of_char c :: nat) in if 48 \<le> n \<and> n \<le> 57 then Some (n - 48) else None)"

fun digits_value :: "nat \<Rightarrow> string \<Rightarrow> nat option" where
  "digits_value acc [] = Some acc"
| "digits_value acc (c # cs) =
     (case digit_of c of None \<Rightarrow> None | Some d \<Rightarrow> digits_value (10 * acc + d) cs)"

definition parseInt :: "string \<Rightarrow> load_error + int" where
  "parseInt s =
     (let (neg, ds) = (case s of
                         c # r \<Rightarrow> if c = CHR ''-'' then (True, r)
                                  else if c = CHR ''+'' then (False, r) else (False, s)
                       | [] \<Rightarrow> (False, s))
      in if ds = [] then Inl NumberFormatException
         else case digits_value 0 ds of
                None \<Rightarrow> Inl NumberFormatException
              | Some n \<Rightarrow>
                  let v = (if neg then - int n else int n)
                  in if - (2 ^ 31) \<le> v \<and> v \<le> 2 ^ 31 - 1 then Inr v
                     else Inl NumberFormatException)"

text \<open>
  \<open>Double.parseDouble\<close> is the JDK's floating-point reader; the loader only stores what it
  returns. It is a parameter \<open>pd\<close> of the model: \<open>pd s = Some x\<close> when the string denotes the
  number \<open>x\<close>, \<open>None\<close> when \<open>NumberFormatException\<close> is raised. The strings that the JDK
  reads as NaN or as an infinity have no value in this model.
\<close>

type_synonym parse_double = "string \<Rightarrow> real option"

definition parseDouble :: "parse_double \<Rightarrow> string \<Rightarrow> load_error + real" where
  "parseDouble pd s = (case pd s of None \<Rightarrow> Inl NumberFormatException | Some x \<Rightarrow> Inr x)"

text \<open>
  For concrete rows the parameter is instantiated with \<open>decimal_literal\<close>, the value of a
  plain decimal literal: an optional sign, digits, and optionally a point and digits.
\<close>

definition decimal_literal :: "string \<Rightarrow> real option" where
  "decimal_literal s =
     (let (neg, r) = (case s of
                        c # r \<Rightarrow> if c = CHR ''-'' then (True, r)
                                 else if c = CHR ''+'' then (False, r) else (False, s)
                      | [] \<Rightarrow> (False, s));
          ip = takeWhile (\<lambda>c. c \<noteq> CHR ''.'') r;
          fp = drop 1 (dropWhile (\<lambda>c. c \<noteq> CHR ''.'') r)
      in if ip = [] then None
         else case (digits_value 0 ip, digits_value 0 fp) of
                (Some i, Some f) \<Rightarrow>
                  let v = real i + real f / 10 ^ length fp
                  in Some (if neg then - v else v)
              | _ \<Rightarrow> None)"

subsection \<open>Reading one line\<close>

text \<open>Sequencing of steps that may raise: the first exception ends the computation.\<close>

definition bindE :: "'e + 'a \<Rightarrow> ('a \<Rightarrow> 'e + 'b) \<Rightarrow> 'e + 'b" where
  "bindE m f = (case m of Inl e \<Rightarrow> Inl e | Inr x \<Rightarrow> f x)"

text \<open>
  The total-charges column: \<open>data[19].trim()\<close>, then \<open>0.0\<close> when the trimmed string is empty
  (or equals one blank, which a trimmed string never does), and \<open>Double.parseDouble\<close> of the
  trimmed string otherwise.
\<close>

definition total_charges_of :: "parse_double \<Rightarrow> string \<Rightarrow> load_error + real" where
  "total_charges_of pd raw =
     (let totalChargesStr = trim raw
      in if totalChargesStr = [] \<or> totalChargesStr = '' '' then Inr 0
         else parseDouble pd totalChargesStr)"

text \<open>
  The body of the \<open>while\<close> loop for a line that is not the header: the columns are read and
  converted in the order of the setter calls, so the first failing column decides the exception.
\<close>

definition parse_line :: "parse_double \<Rightarrow> string \<Rightarrow> load_error + Customer" where
  "parse_line pd line =
     (let data = split_line line in
      bindE (field data 0) (\<lambda>d0.
      bindE (field data 1) (\<lambda>d1.
      bindE (bindE (field data 2) parseInt) (\<lambda>d2.
      bindE (field data 3) (\<lambda>d3.
      bindE (field data 4) (\<lambda>d4.
      bindE (bindE (field data 5) parseInt) (\<lambda>d5.
      bindE (field data 6) (\<lambda>d6.
      bindE (field data 7) (\<lambda>d7.
      bindE (field data 8) (\<lambda>d8.
      bindE (field data 9) (\<lambda>d9.
      bindE (field data 10) (\<lambda>d10.
      bindE (field data 11) (\<lambda>d11.
      bindE (field data 12) (\<lambda>d12.
      bindE (field data 13) (\<lambda>d13.
      bindE (field data 14) (\<lambda>d14.
      bindE (field data 15) (\<lambda>d15.
      bindE (field data 16) (\<lambda>d16.
      bindE (field data 17) (\<lambda>d17.
      bindE (bindE (field data 18) (parseDouble pd)) (\<lambda>d18.
      bindE (bindE (field data 19) (total_charges_of pd)) (\<lambda>d19.
      bindE (field data 20) (\<lambda>d20.
      Inr \<lparr> id' = None, customerId = d0, gender = d1, seniorCitizen = d2, partner = d3,
            dependents = d4, tenure = d5, phoneService = d6, multipleLines = d7,
            internetService = d8, onlineSecurity = d9, onlineBackup = d10,
            deviceProtection = d11, techSupport = d12, streamingTV = d13,
            streamingMovies = d14, contract = d15, paperlessBilling = d16,
            paymentMethod = d17, monthlyCharges = d18, totalCharges = d19,
            churn = d20 \<rparr>))))))))))))))))))))))"

subsection \<open>The loop and the repository\<close>

text \<open>
  The repository is the sequence of stored customers. \<open>count\<close> is its length and
  \<open>saveAll\<close> appends the given entities (the database assigns their ids, which the model
  leaves as they are).
\<close>

type_synonym repository = "Customer list"

definition count :: "repository \<Rightarrow> nat" where
  "count repo = length repo"

definition saveAll :: "repository \<Rightarrow> Customer list \<Rightarrow> repository" where
  "saveAll repo customers = repo @ customers"

text \<open>
  The \<open>while ((line = br.readLine()) != null)\<close> loop over the remaining lines, with the flag
  \<open>isFirstLine\<close> and the list \<open>customers\<close> built so far. An exception leaves the loop.
\<close>

fun read_lines :: "parse_double \<Rightarrow> bool \<Rightarrow> Customer list \<Rightarrow> string list \<Rightarrow> load_error + Customer list" where
  "read_lines pd isFirstLine customers [] = Inr customers"
| "read_lines pd isFirstLine customers (line # rest) =
     (if isFirstLine then read_lines pd False customers rest
      else case parse_line pd line of
             Inl e \<Rightarrow> Inl e
           | Inr customer \<Rightarrow> read_lines pd False (customers @ [customer]) rest)"

text \<open>
  \<open>loadData\<close>: the resource \<open>Customer-Churn.csv\<close> is \<open>Some\<close> of its lines, or \<open>None\<close> when
  opening it raises. Every exception is caught and only logged, so the repository is then
  returned as it was.
\<close>

definition try_load :: "parse_double \<Rightarrow> string list option \<Rightarrow> load_error + Customer list" where
  "try_load pd csv =
     (case csv of None \<Rightarrow> Inl IOException | Some ls \<Rightarrow> read_lines pd True [] ls)"

definition loadData :: "parse_double \<Rightarrow> string list option \<Rightarrow> repository \<Rightarrow> repository" where
  "loadData pd csv repo =
     (if count repo > 0 then repo
      else case try_load pd csv of
             Inl e \<Rightarrow> repo
           | Inr customers \<Rightarrow> saveAll repo customers)"

text \<open>The invariant of a customer record that the specification states.\<close>

definition record_invariant :: "Customer \<Rightarrow> bool" where
  "record_invariant c = (0 \<le> tenure c \<and> 0 \<le> monthlyCharges c \<and> 0 \<le> totalCharges c)"

subsection \<open>Concrete rows\<close>

definition csv_header :: string where
  "csv_header = ''customerID,gender,SeniorCitizen,Partner,Dependents,tenure,PhoneService,MultipleLines,InternetService,OnlineSecurity,OnlineBackup,DeviceProtection,TechSupport,StreamingTV,StreamingMovies,Contract,PaperlessBilling,PaymentMethod,MonthlyCharges,TotalCharges,Churn''"

definition row_blank_total :: string where
  "row_blank_total = ''4472-LVYGI,Female,0,Yes,Yes,0,No,No phone service,DSL,Yes,No,Yes,Yes,Yes,No,Two year,Yes,Bank transfer (automatic),52.5, ,No''"

definition customer_blank_total :: Customer where
  "customer_blank_total =
     \<lparr> id' = None, customerId = ''4472-LVYGI'', gender = ''Female'', seniorCitizen = 0,
       partner = ''Yes'', dependents = ''Yes'', tenure = 0, phoneService = ''No'',
       multipleLines = ''No phone service'', internetService = ''DSL'',
       onlineSecurity = ''Yes'', onlineBackup = ''No'', deviceProtection = ''Yes'',
       techSupport = ''Yes'', streamingTV = ''Yes'', streamingMovies = ''No'',
       contract = ''Two year'', paperlessBilling = ''Yes'',
       paymentMethod = ''Bank transfer (automatic)'', monthlyCharges = 105 / 2,
       totalCharges = 0, churn = ''No'' \<rparr>"

definition row_plain :: string where
  "row_plain = ''7590-VHVEG,Female,0,Yes,No,1,No,No phone service,DSL,No,Yes,No,No,No,No,Month-to-month,Yes,Electronic check,29.5,29.5,No''"

definition customer_plain :: Customer where
  "customer_plain =
     \<lparr> id' = None, customerId = ''7590-VHVEG'', gender = ''Female'', seniorCitizen = 0,
       partner = ''Yes'', dependents = ''No'', tenure = 1, phoneService = ''No'',
       multipleLines = ''No phone service'', internetService = ''DSL'',
       onlineSecurity = ''No'', onlineBackup = ''Yes'', deviceProtection = ''No'',
       techSupport = ''No'', streamingTV = ''No'', streamingMovies = ''No'',
       contract = ''Month-to-month'', paperlessBilling = ''Yes'',
       paymentMethod = ''Electronic check'', monthlyCharges = 59 / 2,
       totalCharges = 59 / 2, churn = ''No'' \<rparr>"

text \<open>A row whose tenure column holds \<open>-1\<close>, and a row that lacks its last columns.\<close>

definition row_negative_tenure :: string where
  "row_negative_tenure = ''7590-VHVEG,Female,0,Yes,No,-1,No,No phone service,DSL,No,Yes,No,No,No,No,Month-to-month,Yes,Electronic check,29.5,29.5,No''"

definition customer_negative_tenure :: Customer where
  "customer_negative_tenure = customer_plain \<lparr> tenure := - 1 \<rparr>"

definition row_short :: string where
  "row_short = ''5575-GNVDE,Male,0,No,No,34''"

text \<open>
  The row of a loaded customer carries non-negative values: the tenure column parses to a
  non-negative int, the monthly-charges column to a non-negative number, and the total-charges
  column is blank or parses to a non-negative number.
\<close>

definition row_values_nonneg :: "parse_double \<Rightarrow> string \<Rightarrow> bool" where
  "row_values_nonneg pd line =
     (let data = split_line line in
        (case parseInt (data ! 5) of Inr t \<Rightarrow> 0 \<le> t | Inl e \<Rightarrow> False) \<and>
        (case pd (data ! 18) of Some m \<Rightarrow> 0 \<le> m | None \<Rightarrow> False) \<and>
        (case total_charges_of pd (data ! 19) of Inr x \<Rightarrow> 0 \<le> x | Inl e \<Rightarrow> False))"

section \<open>The prediction form (frontend/src/App.jsx, Predictor)\<close>

text \<open>
  JavaScript values as the component handles them. A number is its real value or \<open>NaN\<close>; an
  object is the sequence of its properties, a later entry for a key overriding an earlier one.
\<close>

datatype jsval =
    JUndefined | JNull | JBool bool | JNum real | JNaN | JStr string
  | JArr "jsval list" | JObj "(string \<times> jsval) list"

text \<open>Property read \<open>obj.k\<close>: \<open>undefined\<close> when the object has no such property.\<close>

fun get_prop :: "jsval \<Rightarrow> string \<Rightarrow> jsval" where
  "get_prop (JObj kvs) k = (case map_of (rev kvs) k of Some v \<Rightarrow> v | None \<Rightarrow> JUndefined)"
| "get_prop v k = JUndefined"

text \<open>The object literal \<open>{ ...obj, k: v }\<close>.\<close>

fun spread_with :: "jsval \<Rightarrow> string \<Rightarrow> jsval \<Rightarrow> jsval" where
  "spread_with (JObj kvs) k v = JObj (kvs @ [(k, v)])"
| "spread_with other k v = JObj [(k, v)]"

text \<open>
  \<open>parseInt(string)\<close> without a radix: leading white space is skipped (the ASCII white space
  is modelled), an optional sign is read, a prefix \<open>0x\<close> or \<open>0X\<close> selects radix 16, and the
  longest run of digits of the radix gives the value; with no digit the result is \<open>NaN\<close>.
\<close>

definition js_whitespace :: "char \<Rightarrow> bool" where
  "js_whitespace c = ((of_char c :: nat) \<in> {9, 10, 11, 12, 13, 32})"

definition radix_digit :: "nat \<Rightarrow> char \<Rightarrow> nat option" where
  "radix_digit R c =
     (let n = (of_char c :: nat);
          d = (if 48 \<le> n \<and> n \<le> 57 then Some (n - 48)
               else if 97 \<le> n \<and> n \<le> 122 then Some (n - 87)
               else if 65 \<le> n \<and> n \<le> 90 then Some (n - 55)
               else None)
      in case d of None \<Rightarrow> None | Some v \<Rightarrow> if v < R then Some v else None)"

fun radix_value :: "nat \<Rightarrow> nat \<Rightarrow> string \<Rightarrow> nat" where
  "radix_value R acc [] = acc"
| "radix_value R acc (c # cs) =
     (case radix_digit R c of None \<Rightarrow> acc | Some d \<Rightarrow> radix_value R (R * acc + d) cs)"

definition js_parseInt :: "string \<Rightarrow> jsval" where
  "js_parseInt inputString =
     (let S = dropWhile js_whitespace inputString;
          (sign, S1) = (case S of
                          c # r \<Rightarrow> if c = CHR ''-'' then (- 1, r)
                                   else if c = CHR ''+'' then (1, r) else (1, S)
                        | [] \<Rightarrow> (1, S));
          (R, S2) = (if take 2 S1 = ''0x'' \<or> take 2 S1 = ''0X'' then (16, drop 2 S1)
                     else (10, S1));
          Z = takeWhile (\<lambda>c. radix_digit R c \<noteq> None) S2
      in if Z = [] then JNaN else JNum (sign * real (radix_value R 0 Z)))"

text \<open>The initial \<open>formData\<close> of the component.\<close>

definition initial_formData :: jsval where
  "initial_formData = JObj
     [(''gender'', JStr ''Female''), (''SeniorCitizen'', JNum 0), (''Partner'', JStr ''No''),
      (''Dependents'', JStr ''No''), (''tenure'', JNum 1), (''PhoneService'', JStr ''Yes''),
      (''MultipleLines'', JStr ''No''), (''InternetService'', JStr ''Fiber optic''),
      (''OnlineSecurity'', JStr ''No''), (''OnlineBackup'', JStr ''No''),
      (''DeviceProtection'', JStr ''No''), (''TechSupport'', JStr ''No''),
      (''StreamingTV'', JStr ''No''), (''StreamingMovies'', JStr ''No''),
      (''Contract'', JStr ''Month-to-month''), (''PaperlessBilling'', JStr ''Yes''),
      (''PaymentMethod'', JStr ''Electronic check''), (''MonthlyCharges'', JNum 70),
      (''TotalCharges'', JNum 70)]"

text \<open>
  The four \<open>onChange\<close> handlers of the form, each with the \<open>e.target.value\<close> it receives. The
  tenure handler stores \<open>parseInt(e.target.value)\<close>; nothing else is checked.
\<close>

datatype form_event =
    ChangeContract string | ChangePaymentMethod string | ChangeInternetService string
  | ChangeTenure string

fun on_change :: "jsval \<Rightarrow> form_event \<Rightarrow> jsval" where
  "on_change formData (ChangeContract v) = spread_with formData ''Contract'' (JStr v)"
| "on_change formData (ChangePaymentMethod v) = spread_with formData ''PaymentMethod'' (JStr v)"
| "on_change formData (ChangeInternetService v) = spread_with formData ''InternetService'' (JStr v)"
| "on_change formData (ChangeTenure v) = spread_with formData ''tenure'' (js_parseInt v)"

text \<open>The \<open>formData\<close> that \<open>handleSubmit\<close> posts to \<open>/api/predict\<close> after a sequence of edits.\<close>

definition posted_form :: "form_event list \<Rightarrow> jsval" where
  "posted_form events = foldl on_change initial_formData events"

section \<open>The authentication context (frontend/src/AuthContext.jsx, both versions)\<close>

text \<open>
  The values the \<open>token\<close> state takes: \<open>null\<close> (nothing stored, or after logout), a string, or
  \<open>undefined\<close> (a login response without \<open>access_token\<close>).
\<close>

datatype tokval = Null | Undefined | Str string

fun truthy_tok :: "tokval \<Rightarrow> bool" where
  "truthy_tok (Str s) = (s \<noteq> [])"
| "truthy_tok other = False"

text \<open>The string a token becomes in a template literal and in \<open>localStorage.setItem\<close>.\<close>

fun tok_string :: "tokval \<Rightarrow> string" where
  "tok_string (Str s) = s"
| "tok_string Null = ''null''"
| "tok_string Undefined = ''undefined''"

text \<open>
  The state the provider works on: the React states \<open>token\<close> and \<open>user\<close> (a user is its
  username), the axios default header \<open>Authorization\<close>, the \<open>token\<close> entry of localStorage,
  and the dependency value of the last run of the effect (\<open>None\<close> before the first commit).
\<close>

record auth_state =
  token :: tokval
  user :: "string option"
  authorization :: "string option"
  stored :: "string option"
  effect_deps :: "tokval option"

text \<open>The body of \<open>useEffect(..., [token])\<close>.\<close>

definition token_effect :: "auth_state \<Rightarrow> auth_state" where
  "token_effect s =
     (if truthy_tok (token s)
      then s \<lparr> authorization := Some (''Bearer '' @ tok_string (token s)), user := Some ''admin'' \<rparr>
      else s \<lparr> authorization := None, user := None \<rparr>)"

text \<open>
  React commits a render and then runs the effect when it is the first commit or the
  dependency \<open>token\<close> differs from the one of the last run.
\<close>

definition commit :: "auth_state \<Rightarrow> auth_state" where
  "commit s =
     (if effect_deps s = Some (token s) then s
      else (token_effect s) \<lparr> effect_deps := Some (token s) \<rparr>)"

text \<open>
  The state at the first render, from \<open>localStorage.getItem('token')\<close>. In
  \<open>AuthContext.jsx\<close> nothing is set before the effect; the other version sets the header and
  the user at once when a token is stored.
\<close>

definition stored_tok :: "string option \<Rightarrow> tokval" where
  "stored_tok st = (case st of None \<Rightarrow> Null | Some t \<Rightarrow> Str t)"

definition init_v1 :: "string option \<Rightarrow> auth_state" where
  "init_v1 st = \<lparr> token = stored_tok st, user = None, authorization = None, stored = st,
                  effect_deps = None \<rparr>"

definition init_v2 :: "string option \<Rightarrow> auth_state" where
  "init_v2 st =
     \<lparr> token = stored_tok st,
       user = (if truthy_tok (stored_tok st) then Some ''admin'' else None),
       authorization = (if truthy_tok (stored_tok st)
                        then Some (''Bearer '' @ tok_string (stored_tok st)) else None),
       stored = st, effect_deps = None \<rparr>"

text \<open>
  \<open>login\<close>: the outcome of the POST is a failure (any exception inside the \<open>try\<close>) or the
  \<open>access_token\<close> of the response. On success \<open>setToken\<close> and \<open>localStorage.setItem\<close> run and
  React commits the new state. On failure the first version returns \<open>false\<close> and the second
  throws a message; neither touches the state.
\<close>

datatype login_response = PostFailed | PostOk tokval

datatype login_outcome = Returned bool | Thrown

definition set_token :: "tokval \<Rightarrow> auth_state \<Rightarrow> auth_state" where
  "set_token t s = s \<lparr> token := t, stored := Some (tok_string t) \<rparr>"

definition login_v1 :: "login_response \<Rightarrow> auth_state \<Rightarrow> login_outcome \<times> auth_state" where
  "login_v1 r s = (case r of PostFailed \<Rightarrow> (Returned False, s)
                           | PostOk t \<Rightarrow> (Returned True, commit (set_token t s)))"

definition login_v2 :: "login_response \<Rightarrow> auth_state \<Rightarrow> login_outcome \<times> auth_state" where
  "login_v2 r s = (case r of PostFailed \<Rightarrow> (Thrown, s)
                           | PostOk t \<Rightarrow> (Returned True, commit (set_token t s)))"

definition clear_token :: "auth_state \<Rightarrow> auth_state" where
  "clear_token s = s \<lparr> token := Null, stored := None \<rparr>"

definition logout :: "auth_state \<Rightarrow> auth_state" where
  "logout s = commit (clear_token s)"

definition isAuthenticated :: "auth_state \<Rightarrow> bool" where
  "isAuthenticated s = truthy_tok (token s)"

text \<open>A session: the provider mounts and then handles logins and logouts.\<close>

datatype auth_event = Login login_response | Logout

fun step_v1 :: "auth_state \<Rightarrow> auth_event \<Rightarrow> auth_state" where
  "step_v1 s (Login r) = snd (login_v1 r s)"
| "step_v1 s Logout = logout s"

fun step_v2 :: "auth_state \<Rightarrow> auth_event \<Rightarrow> auth_state" where
  "step_v2 s (Login r) = snd (login_v2 r s)"
| "step_v2 s Logout = logout s"

definition session_v1 :: "string option \<Rightarrow> auth_event list \<Rightarrow> auth_state" where
  "session_v1 st events = foldl step_v1 (commit (init_v1 st)) events"

definition session_v2 :: "string option \<Rightarrow> auth_event list \<Rightarrow> auth_state" where
  "session_v2 st events = foldl step_v2 (commit (init_v2 st)) events"

text \<open>
  The invariant of a committed state: the header is \<open>Bearer\<close> followed by the token when the
  token is a non-empty string, and absent otherwise; the effect has run for the current token.
\<close>

definition auth_inv :: "auth_state \<Rightarrow> bool" where
  "auth_inv s =
     (authorization s =
        (case token s of Str t \<Rightarrow> if t \<noteq> [] then Some (''Bearer '' @ t) else None
                       | other \<Rightarrow> None) \<and>
      effect_deps s = Some (token s))"

text \<open>A committed state with a token, for the examples.\<close>

definition logged_in :: auth_state where
  "logged_in = \<lparr> token = Str ''abc'', user = Some ''admin'', authorization = Some ''Bearer abc'',
                 stored = Some ''abc'', effect_deps = Some (Str ''abc'') \<rparr>"

section \<open>The prediction core (Python backend, not among the sources)\<close>

text \<open>
  The services of the FastAPI backend (feature derivation, ensemble scoring, explanation,
  strategy generation, statistics) are not among the source files; only their callers (the
  frontend) and their design notes are. Each definition of this section and the next is
  therefore modelled from the specification, and says so. What the specification leaves open
  (vocabularies of the remaining fields, the rule table, thresholds, bucket boundaries) is
  data of a configuration record, never a choice of the model.
\<close>

text \<open>Modelled from the spec: the error taxonomy of section 7 (backend exceptions.py is absent).\<close>

datatype core_error = FeatureError | ModelLoadError | InsufficientDataError | PredictionError

text \<open>
  Modelled from the spec: the categorical fields of a CustomerRecord, section 3 (the backend's
  request model is absent).
\<close>

datatype cat_field =
    Gender | Partner | Dependents | PhoneService | InternetService | Contract | PaymentMethod
  | PaperlessBilling | OnlineSecurity | OnlineBackup | DeviceProtection | TechSupport
  | StreamingTV | StreamingMovies

text \<open>
  Modelled from the spec: the list of all categorical fields of section 3, in its order.
\<close>

definition all_cat_fields :: "cat_field list" where
  "all_cat_fields =
     [Gender, Partner, Dependents, PhoneService, InternetService, Contract, PaymentMethod,
      PaperlessBilling, OnlineSecurity, OnlineBackup, DeviceProtection, TechSupport,
      StreamingTV, StreamingMovies]"

text \<open>
  Modelled from the spec: CustomerRecord, section 3: the raw categorical values by field, and
  the numeric fields.
\<close>

record CustomerRecord =
  categorical :: "cat_field \<Rightarrow> string"
  senior_citizen :: int
  tenure_months :: int
  monthly_charge :: real
  total_charge :: real

text \<open>
  Modelled from the spec: FeatureVector, section 3: an ordered mapping of feature names to
  numbers, in the fixed order of \<open>feature_order\<close>.
\<close>

type_synonym FeatureVector = "(string \<times> real) list"

text \<open>
  Modelled from the spec: the fixed order of the derived features named in section 3.
\<close>

definition feature_order :: "string list" where
  "feature_order =
     [''customer_value_score'', ''service_count'', ''premium_service_count'',
      ''contract_stability'', ''payment_risk'', ''tenure_group'', ''charge_ratio'',
      ''senior_and_high_monthly'', ''fiber_without_security'']"

text \<open>
  Modelled from the spec: the contract-stability encoding of section 3 (FeatureDeriver is
  absent): month-to-month 1, one year 2, two year 3.
\<close>

definition contract_table :: "(string \<times> real) list" where
  "contract_table = [(''Month-to-month'', 1), (''One year'', 2), (''Two year'', 3)]"

text \<open>
  Modelled from the spec: the payment-risk encoding of section 3 (FeatureDeriver is absent):
  ordinal 1 to 3, electronic check highest; the payment methods are those the form offers.
\<close>

definition payment_table :: "(string \<times> real) list" where
  "payment_table =
     [(''Electronic check'', 3), (''Mailed check'', 2), (''Bank transfer (automatic)'', 1),
      (''Credit card (automatic)'', 1)]"

text \<open>
  Modelled from the spec: what the FeatureDeriver is configured with (section 4.1): the
  vocabularies of the fields other than contract and payment method, the normalisation
  constants fit at training time, and the derived features whose formula the specification
  does not give.
\<close>

record DeriverConfig =
  field_vocabulary :: "cat_field \<Rightarrow> string list"
  MAX_MONTHLY :: real
  MAX_TOTAL :: real
  service_count :: "CustomerRecord \<Rightarrow> real"
  premium_service_count :: "CustomerRecord \<Rightarrow> real"
  tenure_group :: "int \<Rightarrow> real"
  senior_and_high_monthly :: "CustomerRecord \<Rightarrow> bool"

text \<open>
  Modelled from the spec: the known vocabulary of a field (section 4.1); for contract and
  payment method it is the domain of the ordinal encoding.
\<close>

definition vocabulary :: "DeriverConfig \<Rightarrow> cat_field \<Rightarrow> string list" where
  "vocabulary cfg f =
     (if f = Contract then map fst contract_table
      else if f = PaymentMethod then map fst payment_table
      else field_vocabulary cfg f)"

text \<open>
  Modelled from the spec: the vocabulary constraint of section 4.1, over every categorical
  field of the record.
\<close>

definition in_vocabulary :: "DeriverConfig \<Rightarrow> CustomerRecord \<Rightarrow> bool" where
  "in_vocabulary cfg r = list_all (\<lambda>f. categorical r f \<in> set (vocabulary cfg f)) all_cat_fields"

text \<open>
  Modelled from the spec: \<open>customer_value_score\<close>, section 4.1, with the normalisation constants
  of the configuration.
\<close>

definition customer_value_score :: "DeriverConfig \<Rightarrow> CustomerRecord \<Rightarrow> real" where
  "customer_value_score cfg r =
     real_of_int (tenure_months r) * 0.3 + (monthly_charge r / MAX_MONTHLY cfg) * 100 * 0.4
       + (total_charge r / MAX_TOTAL cfg) * 100 * 0.3"

text \<open>
  Modelled from the spec: \<open>charge_ratio\<close>, section 3: total charge over monthly charge times
  \<open>max(tenure, 1)\<close>, and 0 when the monthly charge is 0.
\<close>

definition charge_ratio :: "CustomerRecord \<Rightarrow> real" where
  "charge_ratio r =
     (if monthly_charge r = 0 then 0
      else total_charge r / (monthly_charge r * real_of_int (max (tenure_months r) 1)))"

text \<open>
  Modelled from the spec: \<open>fiber_without_security\<close>, section 3: fiber optic internet without
  online security.
\<close>

definition fiber_without_security :: "CustomerRecord \<Rightarrow> bool" where
  "fiber_without_security r =
     (categorical r InternetService = ''Fiber optic'' \<and> categorical r OnlineSecurity = ''No'')"

text \<open>
  Modelled from the spec: FeatureDeriver.derive, section 4.1 (absent from the sources): a
  value outside its vocabulary raises FeatureError; otherwise the vector is computed from
  the record alone, in the fixed order.
\<close>

definition derive :: "DeriverConfig \<Rightarrow> CustomerRecord \<Rightarrow> core_error + FeatureVector" where
  "derive cfg r =
     (if \<not> in_vocabulary cfg r then Inl FeatureError
      else case (map_of contract_table (categorical r Contract),
                 map_of payment_table (categorical r PaymentMethod)) of
             (Some cs, Some pr) \<Rightarrow>
               Inr [(''customer_value_score'', customer_value_score cfg r),
                    (''service_count'', service_count cfg r),
                    (''premium_service_count'', premium_service_count cfg r),
                    (''contract_stability'', cs),
                    (''payment_risk'', pr),
                    (''tenure_group'', tenure_group cfg (tenure_months r)),
                    (''charge_ratio'', charge_ratio r),
                    (''senior_and_high_monthly'', of_bool (senior_and_high_monthly cfg r)),
                    (''fiber_without_security'', of_bool (fiber_without_security r))]
           | _ \<Rightarrow> Inl FeatureError)"

text \<open>
  Modelled from the spec: a trained classifier (sections 4.2, 4.3): its one capability, the
  class-1 probability of a vector, and its global feature importances.
\<close>

record Classifier =
  probability :: "FeatureVector \<Rightarrow> real"
  feat_importance :: "string \<Rightarrow> real"

text \<open>
  Modelled from the spec: ModelBundle, section 3: the three classifiers, their combination
  weights, the ordered feature names, the metadata, and the precomputed artifacts of the
  explainer (deviation from the reference population, label table).
\<close>

record ModelBundle =
  classifier_a :: Classifier
  classifier_b :: Classifier
  classifier_c :: Classifier
  weights :: "real \<times> real \<times> real"
  feature_names :: "string list"
  version :: string
  trained_at :: string
  metrics :: "(string \<times> real) list"
  normalized_deviation :: "string \<Rightarrow> real \<Rightarrow> real"
  labels :: "string \<Rightarrow> string"

text \<open>
  Modelled from the spec: loading the bundle, section 4.2: ModelLoadError when its feature
  order disagrees with the deriver's.
\<close>

definition check_bundle :: "ModelBundle \<Rightarrow> core_error + ModelBundle" where
  "check_bundle b = (if feature_names b = feature_order then Inr b else Inl ModelLoadError)"

text \<open>
  Modelled from the spec: EnsembleScorer.score, section 4.2 (absent from the sources): the
  average of the three probabilities weighted by the weights of the bundle.
\<close>

definition score :: "FeatureVector \<Rightarrow> ModelBundle \<Rightarrow> real" where
  "score v b =
     (case weights b of (w_a, w_b, w_c) \<Rightarrow>
        (w_a * probability (classifier_a b) v + w_b * probability (classifier_b b) v
           + w_c * probability (classifier_c b) v) / (w_a + w_b + w_c))"

text \<open>
  Modelled from the spec: a bundle whose classifiers return probabilities and whose weights
  are non-negative and not all zero (sections 3, 4.2).
\<close>

definition bundle_ok :: "ModelBundle \<Rightarrow> bool" where
  "bundle_ok b =
     ((\<forall>v. 0 \<le> probability (classifier_a b) v \<and> probability (classifier_a b) v \<le> 1) \<and>
      (\<forall>v. 0 \<le> probability (classifier_b b) v \<and> probability (classifier_b b) v \<le> 1) \<and>
      (\<forall>v. 0 \<le> probability (classifier_c b) v \<and> probability (classifier_c b) v \<le> 1) \<and>
      (case weights b of (w_a, w_b, w_c) \<Rightarrow>
         0 \<le> w_a \<and> 0 \<le> w_b \<and> 0 \<le> w_c \<and> 0 < w_a + w_b + w_c))"

text \<open>
  Modelled from the spec: the floating-point tolerance of section 8: a rounding behaves like
  that of a double when its relative error is at most \<open>2^-53\<close>.
\<close>

definition rounds_like_double :: "(real \<Rightarrow> real) \<Rightarrow> bool" where
  "rounds_like_double rnd = (\<forall>x. \<bar>rnd x - x\<bar> \<le> \<bar>x\<bar> / 2 ^ 53)"

text \<open>
  Modelled from the spec: EnsembleScorer.score of section 4.2 in floating point: the average
  of \<open>score\<close> with every multiplication, addition and division followed by \<open>rnd\<close>.
\<close>

definition score_rounded :: "(real \<Rightarrow> real) \<Rightarrow> FeatureVector \<Rightarrow> ModelBundle \<Rightarrow> real" where
  "score_rounded rnd v b =
     (case weights b of (w_a, w_b, w_c) \<Rightarrow>
        rnd (rnd (rnd (rnd (w_a * probability (classifier_a b) v)
                       + rnd (w_b * probability (classifier_b b) v))
                  + rnd (w_c * probability (classifier_c b) v))
             / rnd (rnd (w_a + w_b) + w_c)))"

text \<open>Modelled from the spec: the three levels of risk and of priority, and Yes/No (section 3).\<close>

datatype level = Low | Medium | High

text \<open>
  Modelled from the spec: the prediction of section 3, Yes or No.
\<close>

datatype yes_no = Yes | No

text \<open>Modelled from the spec: a risk factor, section 3 (feature name, label, contribution).\<close>

record RiskFactor =
  feature_name :: string
  human_label :: string
  contribution_score :: real

text \<open>Modelled from the spec: StrategyAction, section 3.\<close>

record StrategyAction =
  action :: string
  priority :: level
  details :: string
  expected_impact :: string

text \<open>Modelled from the spec: PredictionResult, section 3.\<close>

record PredictionResult =
  churn_probability :: real
  prediction :: yes_no
  risk_level :: level
  risk_factors :: "RiskFactor list"
  suggestions :: "StrategyAction list"
  model_version :: string
  confidence :: real

text \<open>
  Modelled from the spec: the importance of a feature, section 4.3: the average of the three
  classifiers' importances.
\<close>

definition importance :: "ModelBundle \<Rightarrow> string \<Rightarrow> real" where
  "importance b n =
     (feat_importance (classifier_a b) n + feat_importance (classifier_b b) n
        + feat_importance (classifier_c b) n) / 3"

text \<open>
  Modelled from the spec: the contribution of one feature, section 4.3: importance times
  normalised deviation, paired with the label of the feature.
\<close>

definition contribution :: "ModelBundle \<Rightarrow> string \<times> real \<Rightarrow> RiskFactor" where
  "contribution b nx =
     \<lparr> feature_name = fst nx, human_label = labels b (fst nx),
       contribution_score = importance b (fst nx) * normalized_deviation b (fst nx) (snd nx) \<rparr>"

text \<open>
  Modelled from the spec: the factors that are reported, section 4.3: those whose contribution
  pushes toward churn, in declaration order.
\<close>

definition toward_churn :: "FeatureVector \<Rightarrow> ModelBundle \<Rightarrow> RiskFactor list" where
  "toward_churn v b = filter (\<lambda>f. 0 < contribution_score f) (map (contribution b) v)"

text \<open>
  Modelled from the spec: the ranking of section 4.3: descending magnitude of contribution, by
  a stable sort, so that ties stay in declaration order.
\<close>

definition ranked_factors :: "FeatureVector \<Rightarrow> ModelBundle \<Rightarrow> RiskFactor list" where
  "ranked_factors v b = sort_key (\<lambda>f. - \<bar>contribution_score f\<bar>) (toward_churn v b)"

text \<open>
  Modelled from the spec: RiskExplainer.explain, section 4.3 (absent from the sources): the
  first 5 of the ranked factors.
\<close>

definition explain :: "FeatureVector \<Rightarrow> real \<Rightarrow> ModelBundle \<Rightarrow> RiskFactor list" where
  "explain v p b = take 5 (ranked_factors v b)"

text \<open>
  Modelled from the spec: a rule of the StrategyGenerator, section 4.4: a condition on risk
  level, risk factors and record, and the action it emits.
\<close>

type_synonym rule = "(level \<Rightarrow> RiskFactor list \<Rightarrow> CustomerRecord \<Rightarrow> bool) \<times> StrategyAction"

text \<open>
  Modelled from the spec: deduplication by action type, section 4.4: the first action of each
  type is kept.
\<close>

fun dedup_by_action :: "string list \<Rightarrow> StrategyAction list \<Rightarrow> StrategyAction list" where
  "dedup_by_action seen [] = []"
| "dedup_by_action seen (a # as) =
     (if action a \<in> set seen then dedup_by_action seen as
      else a # dedup_by_action (action a # seen) as)"

text \<open>
  Modelled from the spec: StrategyGenerator.generate, section 4.4 (absent from the sources):
  the actions of the rules that hold, in table order, deduplicated and cut to N.
\<close>

definition generate ::
  "rule list \<Rightarrow> nat \<Rightarrow> level \<Rightarrow> RiskFactor list \<Rightarrow> CustomerRecord \<Rightarrow> StrategyAction list" where
  "generate table N lvl factors r =
     take N (dedup_by_action [] (map snd (filter (\<lambda>rl. fst rl lvl factors r) table)))"

text \<open>
  Modelled from the spec: what the PredictionService is configured with (sections 3, 4.4,
  9): the deriver's configuration, the rule table and its cap, the risk thresholds, the
  decision threshold, and the confidence as a function of the distance to 0.5.
\<close>

record ServiceConfig =
  deriver :: DeriverConfig
  rules :: "rule list"
  max_actions :: nat
  high_risk_above :: real
  medium_risk_from :: real
  decision_threshold :: real
  confidence_of :: "real \<Rightarrow> real"

text \<open>
  Modelled from the spec: the risk level of a probability, glossary and section 9: fixed
  thresholds, here those of the configuration.
\<close>

definition risk_level_of :: "ServiceConfig \<Rightarrow> real \<Rightarrow> level" where
  "risk_level_of cfg p =
     (if high_risk_above cfg < p then High else if medium_risk_from cfg \<le> p then Medium else Low)"

text \<open>
  Modelled from the spec: predict, section 6 (the backend service is absent): the record is
  validated and derived first, a FeatureError is propagated, and the result is assembled
  from the score, the explanation and the generated actions.
\<close>

definition predict :: "ServiceConfig \<Rightarrow> ModelBundle \<Rightarrow> CustomerRecord \<Rightarrow> core_error + PredictionResult" where
  "predict cfg b r =
     bindE (derive (deriver cfg) r) (\<lambda>v.
       let p = score v b;
           lvl = risk_level_of cfg p;
           factors = explain v p b
       in Inr \<lparr> churn_probability = p,
                prediction = (if decision_threshold cfg < p then Yes else No),
                risk_level = lvl,
                risk_factors = factors,
                suggestions = generate (rules cfg) (max_actions cfg) lvl factors r,
                model_version = version b,
                confidence = confidence_of cfg \<bar>p - 1 / 2\<bar> \<rparr>)"

section \<open>The statistical analyzer (Python backend, not among the sources)\<close>

text \<open>
  Modelled from the spec: the population the analyzer works on, section 4.5: customers with
  their churn outcome.
\<close>

record PopulationMember =
  member :: CustomerRecord
  churned :: bool

text \<open>Modelled from the spec: Segment, section 3.\<close>

record Segment =
  label :: string
  churn_rate :: real

text \<open>
  Modelled from the spec: the two kinds of test of section 3.
\<close>

datatype test_kind = ChiSquare | MannWhitneyU

text \<open>
  Modelled from the spec: StatisticalTestResult, section 3; significant means a p-value below
  0.05.
\<close>

record StatisticalTestResult =
  variable :: string
  test_kind :: test_kind
  statistic :: real
  p_value :: real
  significant :: bool

text \<open>
  Modelled from the spec: what the analyzer is configured with (sections 4.5, 9): the
  minimum sample size, and the two distribution functions that turn a statistic into a
  p-value (chi-square by degrees of freedom; Mann-Whitney by the two group sizes).
\<close>

record AnalyzerConfig =
  min_sample_size :: nat
  chi_square_p :: "nat \<Rightarrow> real \<Rightarrow> real"
  mann_whitney_p :: "nat \<Rightarrow> nat \<Rightarrow> real \<Rightarrow> real"

text \<open>Modelled from the spec: rounding to one decimal, section 4.5.\<close>

definition round1 :: "real \<Rightarrow> real" where
  "round1 x = real_of_int (round (x * 10)) / 10"

text \<open>
  Modelled from the spec: the churn rate of a group, section 4.5: the percentage of its
  churned members, to one decimal.
\<close>

definition churn_rate_percent :: "PopulationMember list \<Rightarrow> real" where
  "churn_rate_percent ms = round1 (100 * real (length (filter churned ms)) / real (length ms))"

text \<open>
  Modelled from the spec: the churn rate of one segment, sections 4.5 and 7 (the analyzer is
  absent): InsufficientDataError when the segment has fewer members than the minimum.
\<close>

definition segment_churn_rate ::
  "AnalyzerConfig \<Rightarrow> string \<times> (CustomerRecord \<Rightarrow> bool) \<Rightarrow> PopulationMember list
     \<Rightarrow> core_error + Segment" where
  "segment_churn_rate cfg seg population =
     (let members = filter (\<lambda>m. snd seg (member m)) population
      in if length members < min_sample_size cfg then Inl InsufficientDataError
         else Inr \<lparr> label = fst seg, churn_rate = churn_rate_percent members \<rparr>)"

text \<open>
  Modelled from the spec: each segment is reported on its own, section 7: an undersized
  segment gives its error and the others are still computed.
\<close>

definition analyze_segments ::
  "AnalyzerConfig \<Rightarrow> (string \<times> (CustomerRecord \<Rightarrow> bool)) list \<Rightarrow> PopulationMember list
     \<Rightarrow> (core_error + Segment) list" where
  "analyze_segments cfg segs population = map (\<lambda>seg. segment_churn_rate cfg seg population) segs"

text \<open>
  Modelled from the spec: the Mann-Whitney U statistic of section 4.5, of the first group
  against the second; a tie counts one half.
\<close>

definition u_statistic :: "real list \<Rightarrow> real list \<Rightarrow> real" where
  "u_statistic xs ys =
     (\<Sum>x\<leftarrow>xs. \<Sum>y\<leftarrow>ys. if y < x then 1 else if x = y then 1 / 2 else 0)"

text \<open>
  Modelled from the spec: the Mann-Whitney test of one continuous variable, sections 4.5 and
  7 (the analyzer is absent): InsufficientDataError when a group is below the minimum size.
\<close>

definition mann_whitney_test ::
  "AnalyzerConfig \<Rightarrow> string \<times> (CustomerRecord \<Rightarrow> real) \<Rightarrow> PopulationMember list
     \<Rightarrow> core_error + StatisticalTestResult" where
  "mann_whitney_test cfg var population =
     (let yes = map (\<lambda>m. snd var (member m)) (filter churned population);
          no = map (\<lambda>m. snd var (member m)) (filter (\<lambda>m. \<not> churned m) population)
      in if length yes < min_sample_size cfg \<or> length no < min_sample_size cfg
         then Inl InsufficientDataError
         else let u = u_statistic yes no;
                  p = mann_whitney_p cfg (length yes) (length no) u
              in Inr \<lparr> variable = fst var, test_kind = MannWhitneyU, statistic = u, p_value = p,
                       significant = (p < 0.05) \<rparr>)"

text \<open>
  Modelled from the spec: one cell of the 2 by k contingency table of section 4.5, churn
  outcome against category: the squared difference of observed and expected count over the
  expected count.
\<close>

definition cell_term :: "PopulationMember list \<Rightarrow> cat_field \<Rightarrow> bool \<Rightarrow> string \<Rightarrow> real" where
  "cell_term population f outcome category =
     (let n = real (length population);
          row_total = real (length (filter (\<lambda>m. churned m = outcome) population));
          column_total = real (length (filter (\<lambda>m. categorical (member m) f = category) population));
          observed = real (length (filter (\<lambda>m. churned m = outcome \<and> categorical (member m) f = category)
                                      population));
          expected = row_total * column_total / n
      in (observed - expected)\<^sup>2 / expected)"

text \<open>
  Modelled from the spec: the chi-square statistic of section 4.5: the sum of the cell terms
  over the categories that occur, for both churn outcomes.
\<close>

definition chi_square_statistic :: "PopulationMember list \<Rightarrow> cat_field \<Rightarrow> real" where
  "chi_square_statistic population f =
     (let categories = remdups (map (\<lambda>m. categorical (member m) f) population)
      in (\<Sum>c\<leftarrow>categories. cell_term population f True c + cell_term population f False c))"

text \<open>
  Modelled from the spec: the chi-square test of one categorical variable, sections 4.5 and 7
  (the analyzer is absent): InsufficientDataError when a churn group is below the minimum
  size; k - 1 degrees of freedom.
\<close>

definition chi_square_test ::
  "AnalyzerConfig \<Rightarrow> string \<times> cat_field \<Rightarrow> PopulationMember list
     \<Rightarrow> core_error + StatisticalTestResult" where
  "chi_square_test cfg var population =
     (let yes = filter churned population;
          no = filter (\<lambda>m. \<not> churned m) population
      in if length yes < min_sample_size cfg \<or> length no < min_sample_size cfg
         then Inl InsufficientDataError
         else let k = length (remdups (map (\<lambda>m. categorical (member m) (snd var)) population));
                  x = chi_square_statistic population (snd var);
                  p = chi_square_p cfg (k - 1) x
              in Inr \<lparr> variable = fst var, test_kind = ChiSquare, statistic = x, p_value = p,
                       significant = (p < 0.05) \<rparr>)"

section \<open>Sample configuration, bundle and customers\<close>

text \<open>
  Concrete data for the examples: the vocabularies of the telco data set the application
  works on, a bundle with the weights 2, 1, 1, and customers.
\<close>

definition telco_vocabulary :: "cat_field \<Rightarrow> string list" where
  "telco_vocabulary f =
     (case f of
        Gender \<Rightarrow> [''Female'', ''Male'']
      | InternetService \<Rightarrow> [''DSL'', ''Fiber optic'', ''No'']
      | Contract \<Rightarrow> [''Month-to-month'', ''One year'', ''Two year'']
      | PaymentMethod \<Rightarrow> [''Electronic check'', ''Mailed check'', ''Bank transfer (automatic)'',
                          ''Credit card (automatic)'']
      | OnlineSecurity \<Rightarrow> [''Yes'', ''No'', ''No internet service'']
      | OnlineBackup \<Rightarrow> [''Yes'', ''No'', ''No internet service'']
      | DeviceProtection \<Rightarrow> [''Yes'', ''No'', ''No internet service'']
      | TechSupport \<Rightarrow> [''Yes'', ''No'', ''No internet service'']
      | StreamingTV \<Rightarrow> [''Yes'', ''No'', ''No internet service'']
      | StreamingMovies \<Rightarrow> [''Yes'', ''No'', ''No internet service'']
      | _ \<Rightarrow> [''Yes'', ''No''])"

definition sample_deriver :: DeriverConfig where
  "sample_deriver =
     \<lparr> field_vocabulary = telco_vocabulary, MAX_MONTHLY = 120, MAX_TOTAL = 9000,
       service_count = (\<lambda>r. 1), premium_service_count = (\<lambda>r. 0),
       tenure_group = (\<lambda>t. if t < 12 then 1 else if t < 24 then 2 else 3),
       senior_and_high_monthly = (\<lambda>r. senior_citizen r = 1 \<and> 80 < monthly_charge r) \<rparr>"

definition stability_classifier :: "real \<Rightarrow> real \<Rightarrow> Classifier" where
  "stability_classifier risky safe =
     \<lparr> probability = (\<lambda>v. case map_of v ''contract_stability'' of
                             Some c \<Rightarrow> if c \<le> 1 then risky else safe
                           | None \<Rightarrow> 1 / 2),
       feat_importance = (\<lambda>n. if n = ''contract_stability'' then 3 / 10 else 1 / 10) \<rparr>"

definition sample_bundle :: ModelBundle where
  "sample_bundle =
     \<lparr> classifier_a = stability_classifier (9 / 10) (1 / 10),
       classifier_b = stability_classifier (8 / 10) (2 / 10),
       classifier_c = stability_classifier (7 / 10) (1 / 10),
       weights = (2, 1, 1),
       feature_names = feature_order,
       version = ''2.0.0'',
       trained_at = ''2026-02-03'',
       metrics = [(''accuracy'', 8112 / 10000)],
       normalized_deviation = (\<lambda>n x. if n = ''contract_stability'' then 2 - x
                                      else if n = ''payment_risk'' then x - 2 else 0),
       labels = (\<lambda>n. n) \<rparr>"

text \<open>A rounding that always errs upward by the full relative error.\<close>

definition sample_rounding :: "real \<Rightarrow> real" where
  "sample_rounding x = x * (1 + 1 / 2 ^ 53)"

definition upgrade_action :: StrategyAction where
  "upgrade_action = \<lparr> action = ''long-term contract upgrade'', priority = High,
                      details = ''offer a one-year contract'', expected_impact = ''high'' \<rparr>"

definition autopay_action :: StrategyAction where
  "autopay_action = \<lparr> action = ''auto-payment incentive'', priority = High,
                      details = ''discount for automatic payment'', expected_impact = ''medium'' \<rparr>"

definition sample_rules :: "rule list" where
  "sample_rules =
     [(\<lambda>lvl fs r. categorical r PaymentMethod = ''Electronic check'', autopay_action),
      (\<lambda>lvl fs r. categorical r Contract = ''Month-to-month'', upgrade_action),
      (\<lambda>lvl fs r. lvl = High, upgrade_action)]"

definition sample_config :: ServiceConfig where
  "sample_config =
     \<lparr> deriver = sample_deriver, rules = sample_rules, max_actions = 3,
       high_risk_above = 7 / 10, medium_risk_from = 1 / 2, decision_threshold = 1 / 2,
       confidence_of = (\<lambda>d. 2 * d) \<rparr>"

definition risky_customer :: CustomerRecord where
  "risky_customer =
     \<lparr> categorical = (\<lambda>f. case f of
                              Gender \<Rightarrow> ''Female''
                            | InternetService \<Rightarrow> ''Fiber optic''
                            | Contract \<Rightarrow> ''Month-to-month''
                            | PaymentMethod \<Rightarrow> ''Electronic check''
                            | PhoneService \<Rightarrow> ''Yes''
                            | PaperlessBilling \<Rightarrow> ''Yes''
                            | _ \<Rightarrow> ''No''),
       senior_citizen = 0, tenure_months = 2, monthly_charge = 70, total_charge = 140 \<rparr>"

definition unknown_contract_customer :: CustomerRecord where
  "unknown_contract_customer =
     risky_customer \<lparr> categorical := (categorical risky_customer) (Contract := ''Three year'') \<rparr>"

definition sample_analyzer :: AnalyzerConfig where
  "sample_analyzer = \<lparr> min_sample_size = 5, chi_square_p = (\<lambda>df x. 1), mann_whitney_p = (\<lambda>n m u. 1) \<rparr>"

definition three_customers :: "PopulationMember list" where
  "three_customers =
     [\<lparr> member = risky_customer, churned = True \<rparr>,
      \<lparr> member = risky_customer, churned = False \<rparr>,
      \<lparr> member = risky_customer, churned = True \<rparr>]"

definition six_customers :: "PopulationMember list" where
  "six_customers = three_customers @ three_customers"

definition short_tenure_segment :: "string \<times> (CustomerRecord \<Rightarrow> bool)" where
  "short_tenure_segment = (''tenure < 6 months'', \<lambda>r. tenure_months r < 6)"

section \<open>Properties of the CSV loader\<close>

lemma bindE_Inr_iff: "bindE m f = Inr y \<longleftrightarrow> (\<exists>x. m = Inr x \<and> f x = Inr y)"
  by (cases m) (simp_all add: bindE_def)

lemma bindE_Inl_iff: "bindE m f = Inl e \<longleftrightarrow> m = Inl e \<or> (\<exists>x. m = Inr x \<and> f x = Inl e)"
  by (cases m) (simp_all add: bindE_def)

lemma field_Inr_iff: "field data k = Inr s \<longleftrightarrow> k < length data \<and> s = data ! k"
  by (auto simp: field_def)

lemma parse_line_Inr:
  assumes "parse_line pd line = Inr c"
  shows "20 < length (split_line line)"
    and "parseInt (split_line line ! 5) = Inr (tenure c)"
    and "parseDouble pd (split_line line ! 18) = Inr (monthlyCharges c)"
    and "total_charges_of pd (split_line line ! 19) = Inr (totalCharges c)"
  using assms unfolding parse_line_def Let_def
  by (auto simp: bindE_Inr_iff field_Inr_iff)

lemma trim_not_blank: "trim s \<noteq> '' ''"
proof
  assume h: "trim s = '' ''"
  define t where "t = dropWhile is_space (rev (dropWhile is_space s))"
  from h have "rev t = '' ''" by (simp add: trim_def t_def)
  then have "t = '' ''" by (metis rev_rev_ident rev_singleton_conv)
  then have "hd t = CHR '' ''" "t \<noteq> []" by simp_all
  moreover have "\<not> is_space (hd t)" using \<open>t \<noteq> []\<close> unfolding t_def by (rule hd_dropWhile)
  ultimately show False by (simp add: is_space_def)
qed

lemma total_charges_of_Inr:
  "total_charges_of pd raw = Inr x \<longleftrightarrow>
     (trim raw = [] \<and> x = 0) \<or> (trim raw \<noteq> [] \<and> pd (trim raw) = Some x)"
  by (auto simp: total_charges_of_def Let_def parseDouble_def trim_not_blank split: option.splits)

text \<open>
  Claim C3. For every CSV row that \<open>loadData\<close> turns into a customer, the row has its
  total-charges column (index 19); when that column is empty after \<open>trim\<close> the customer's
  total charge is exactly 0, and otherwise it is the number \<open>Double.parseDouble\<close> returns
  for the trimmed column.
\<close>

theorem total_charge_blank_or_parsed:
  assumes "parse_line pd line = Inr c"
  shows "19 < length (split_line line) \<and>
         (trim (split_line line ! 19) = [] \<longrightarrow> totalCharges c = 0) \<and>
         (trim (split_line line ! 19) \<noteq> [] \<longrightarrow>
            pd (trim (split_line line ! 19)) = Some (totalCharges c))"
  using parse_line_Inr(1,4)[OF assms] by (auto simp: total_charges_of_Inr)

lemma split_blank: "split_line row_blank_total =
  [''4472-LVYGI'', ''Female'', ''0'', ''Yes'', ''Yes'', ''0'', ''No'', ''No phone service'', ''DSL'',
   ''Yes'', ''No'', ''Yes'', ''Yes'', ''Yes'', ''No'', ''Two year'', ''Yes'',
   ''Bank transfer (automatic)'', ''52.5'', '' '', ''No'']"
  unfolding row_blank_total_def split_line_def by code_simp

lemma split_plain: "split_line row_plain =
  [''7590-VHVEG'', ''Female'', ''0'', ''Yes'', ''No'', ''1'', ''No'', ''No phone service'', ''DSL'',
   ''No'', ''Yes'', ''No'', ''No'', ''No'', ''No'', ''Month-to-month'', ''Yes'',
   ''Electronic check'', ''29.5'', ''29.5'', ''No'']"
  unfolding row_plain_def split_line_def by code_simp

lemma split_negative: "split_line row_negative_tenure =
  [''7590-VHVEG'', ''Female'', ''0'', ''Yes'', ''No'', ''-1'', ''No'', ''No phone service'', ''DSL'',
   ''No'', ''Yes'', ''No'', ''No'', ''No'', ''No'', ''Month-to-month'', ''Yes'',
   ''Electronic check'', ''29.5'', ''29.5'', ''No'']"
  unfolding row_negative_tenure_def split_line_def by code_simp

lemma split_short: "split_line row_short = [''5575-GNVDE'', ''Male'', ''0'', ''No'', ''No'', ''34'']"
  unfolding row_short_def split_line_def by code_simp

lemma parseInt_samples:
  "parseInt ''0'' = Inr 0" "parseInt ''1'' = Inr 1" "parseInt ''-1'' = Inr (- 1)"
  "parseInt ''34'' = Inr 34"
  by (simp_all add: parseInt_def digit_of_def)

lemma decimal_samples:
  "decimal_literal ''29.5'' = Some (59 / 2)" "decimal_literal ''52.5'' = Some (105 / 2)"
  by (simp_all add: decimal_literal_def digit_of_def)

lemma trim_samples: "trim ''29.5'' = ''29.5''" "trim '' '' = []"
  by (simp_all add: trim_def is_space_def)

lemmas eval_line = field_def bindE_def parseInt_samples decimal_samples trim_samples
  parseDouble_def total_charges_of_def

lemma parse_blank: "parse_line decimal_literal row_blank_total = Inr customer_blank_total"
  unfolding parse_line_def split_blank Let_def customer_blank_total_def
  by (simp add: eval_line)

lemma parse_plain: "parse_line decimal_literal row_plain = Inr customer_plain"
  unfolding parse_line_def split_plain Let_def customer_plain_def
  by (simp add: eval_line)

lemma parse_negative: "parse_line decimal_literal row_negative_tenure = Inr customer_negative_tenure"
  unfolding parse_line_def split_negative Let_def customer_negative_tenure_def customer_plain_def
  by (simp add: eval_line)

lemma parse_short: "parse_line decimal_literal row_short = Inl ArrayIndexOutOfBoundsException"
  unfolding parse_line_def split_short Let_def
  by (simp add: eval_line)

theorem total_charge_blank_or_parsed_witness:
  "parse_line decimal_literal row_blank_total = Inr customer_blank_total \<and>
   trim (split_line row_blank_total ! 19) = [] \<and> totalCharges customer_blank_total = 0 \<and>
   parse_line decimal_literal row_plain = Inr customer_plain \<and>
   trim (split_line row_plain ! 19) = ''29.5'' \<and>
   decimal_literal ''29.5'' = Some (totalCharges customer_plain)"
  using total_charge_blank_or_parsed[OF parse_blank] total_charge_blank_or_parsed[OF parse_plain]
  by (simp add: parse_blank parse_plain split_blank split_plain trim_samples)


lemma read_lines_fail:
  "\<exists>l\<in>set ls. isl (parse_line pd l) \<Longrightarrow> isl (read_lines pd False acc ls)"
  by (induction ls arbitrary: acc) (auto split: sum.splits)

lemma read_lines_ok:
  "\<forall>l\<in>set ls. \<not> isl (parse_line pd l) \<Longrightarrow>
   read_lines pd False acc ls = Inr (acc @ map (\<lambda>l. projr (parse_line pd l)) ls)"
  by (induction ls arbitrary: acc) (auto split: sum.splits)

lemma read_lines_header: "read_lines pd True acc ls = read_lines pd False acc (drop 1 ls)"
  by (cases ls) simp_all

lemma try_load_fail:
  "\<exists>l\<in>set (drop 1 ls). isl (parse_line pd l) \<Longrightarrow> isl (try_load pd (Some ls))"
  by (simp add: try_load_def read_lines_header read_lines_fail)

lemma try_load_ok:
  "\<forall>l\<in>set (drop 1 ls). \<not> isl (parse_line pd l) \<Longrightarrow>
   try_load pd (Some ls) = Inr (map (\<lambda>l. projr (parse_line pd l)) (drop 1 ls))"
  by (simp add: try_load_def read_lines_header read_lines_ok)

text \<open>
  Claim C8. Loading is all-or-nothing: when some line after the header raises while it is
  parsed, or the resource cannot be opened, \<open>loadData\<close> leaves the repository unchanged;
  \<open>saveAll\<close> is reached only when every line has parsed, and then stores the customers of
  all the lines.
\<close>

theorem loadData_all_or_nothing:
  "((\<exists>l\<in>set (drop 1 ls). isl (parse_line pd l)) \<longrightarrow> loadData pd (Some ls) repo = repo) \<and>
   ((\<forall>l\<in>set (drop 1 ls). \<not> isl (parse_line pd l)) \<and> count repo = 0 \<longrightarrow>
      loadData pd (Some ls) repo =
        saveAll repo (map (\<lambda>l. projr (parse_line pd l)) (drop 1 ls))) \<and>
   loadData pd None repo = repo"
proof (intro conjI impI)
  assume "\<exists>l\<in>set (drop 1 ls). isl (parse_line pd l)"
  then have "isl (try_load pd (Some ls))" by (rule try_load_fail)
  then show "loadData pd (Some ls) repo = repo"
    by (auto simp: loadData_def split: sum.splits)
next
  assume h: "(\<forall>l\<in>set (drop 1 ls). \<not> isl (parse_line pd l)) \<and> count repo = 0"
  then show "loadData pd (Some ls) repo =
      saveAll repo (map (\<lambda>l. projr (parse_line pd l)) (drop 1 ls))"
    by (simp add: loadData_def try_load_ok)
next
  show "loadData pd None repo = repo"
    by (simp add: loadData_def try_load_def)
qed

theorem loadData_all_or_nothing_witness:
  "loadData decimal_literal (Some [csv_header, row_plain, row_short]) [] = [] \<and>
   loadData decimal_literal (Some [csv_header, row_plain, row_blank_total]) [] =
     [customer_plain, customer_blank_total]"
  using loadData_all_or_nothing[of "[csv_header, row_plain, row_short]" decimal_literal "[]"]
    loadData_all_or_nothing[of "[csv_header, row_plain, row_blank_total]" decimal_literal "[]"]
  by (simp add: parse_plain parse_short parse_blank count_def saveAll_def)

lemma load_plain: "loadData decimal_literal (Some [csv_header, row_plain]) [] = [customer_plain]"
  by (simp add: loadData_def count_def try_load_def parse_plain saveAll_def)

text \<open>
  Claim C9. When the repository is not empty \<open>loadData\<close> returns it unchanged, and running
  \<open>loadData\<close> twice in sequence gives the same repository as running it once.
\<close>

theorem loadData_idempotent:
  "(count repo > 0 \<longrightarrow> loadData pd csv repo = repo) \<and>
   loadData pd csv (loadData pd csv repo) = loadData pd csv repo"
proof
  show "count repo > 0 \<longrightarrow> loadData pd csv repo = repo"
    by (simp add: loadData_def)
next
  show "loadData pd csv (loadData pd csv repo) = loadData pd csv repo"
  proof (cases "count repo > 0")
    case True
    then show ?thesis by (simp add: loadData_def)
  next
    case False
    then have e: "repo = []" by (simp add: count_def)
    show ?thesis
    proof (cases "try_load pd csv")
      case (Inl err)
      then show ?thesis by (simp add: loadData_def e)
    next
      case (Inr cs)
      then show ?thesis by (cases cs) (simp_all add: loadData_def e saveAll_def count_def)
    qed
  qed
qed

theorem loadData_idempotent_witness:
  "count [customer_plain] > 0 \<and>
   loadData decimal_literal (Some [csv_header, row_blank_total]) [customer_plain] = [customer_plain] \<and>
   loadData decimal_literal (Some [csv_header, row_plain])
     (loadData decimal_literal (Some [csv_header, row_plain]) []) = [customer_plain]"
  using loadData_idempotent[of "[customer_plain]" decimal_literal "Some [csv_header, row_blank_total]"]
    loadData_idempotent[of "[]" decimal_literal "Some [csv_header, row_plain]"]
  by (simp add: count_def load_plain)

subsection \<open>The record invariant on the two ingestion paths\<close>

lemma record_invariant_iff_row:
  assumes "parse_line pd line = Inr c"
  shows "record_invariant c \<longleftrightarrow> row_values_nonneg pd line"
  using parse_line_Inr(2,3,4)[OF assms]
  by (auto simp: record_invariant_def row_values_nonneg_def Let_def parseDouble_def
           split: option.splits)

lemma read_lines_members:
  "read_lines pd first acc ls = Inr cs \<Longrightarrow> c \<in> set cs \<Longrightarrow>
   c \<in> set acc \<or> (\<exists>l\<in>set (if first then drop 1 ls else ls). parse_line pd l = Inr c)"
proof (induction ls arbitrary: acc first)
  case Nil
  then show ?case by simp
next
  case (Cons l ls)
  show ?case
  proof (cases first)
    case True
    with Cons.prems have "read_lines pd False acc ls = Inr cs" by simp
    from Cons.IH[OF this Cons.prems(2)] True show ?thesis by auto
  next
    case False
    with Cons.prems obtain c' where p: "parse_line pd l = Inr c'"
      and r: "read_lines pd False (acc @ [c']) ls = Inr cs"
      by (auto split: sum.splits)
    from Cons.IH[OF r Cons.prems(2)] p False show ?thesis by auto
  qed
qed

lemma loadData_members:
  assumes "c \<in> set (loadData pd csv repo)"
  shows "c \<in> set repo \<or> (\<exists>ls. csv = Some ls \<and> (\<exists>l\<in>set (drop 1 ls). parse_line pd l = Inr c))"
proof (cases "try_load pd csv")
  case (Inl e)
  with assms show ?thesis by (simp add: loadData_def split: if_splits)
next
  case (Inr cs)
  then obtain ls where csv: "csv = Some ls" and r: "read_lines pd True [] ls = Inr cs"
    by (auto simp: try_load_def split: option.splits)
  from assms Inr have "c \<in> set repo \<or> c \<in> set cs"
    by (auto simp: loadData_def saveAll_def split: if_splits)
  then show ?thesis
  proof
    assume "c \<in> set repo" then show ?thesis ..
  next
    assume "c \<in> set cs"
    from read_lines_members[OF r this] csv show ?thesis by auto
  qed
qed

lemma get_prop_spread:
  "get_prop (spread_with (JObj kvs) k v) k' = (if k' = k then v else get_prop (JObj kvs) k')"
  by simp

lemma on_change_obj: "\<exists>kvs'. on_change (JObj kvs) e = JObj kvs'"
  by (cases e) simp_all

lemma on_change_untouched:
  "k \<notin> {''Contract'', ''PaymentMethod'', ''InternetService'', ''tenure''} \<Longrightarrow>
   get_prop (on_change (JObj kvs) e) k = get_prop (JObj kvs) k"
  by (cases e) auto

lemma foldl_on_change_obj: "\<exists>kvs'. foldl on_change (JObj kvs) evs = JObj kvs'"
proof (induction evs arbitrary: kvs)
  case Nil
  then show ?case by simp
next
  case (Cons e evs)
  obtain kvs1 where "on_change (JObj kvs) e = JObj kvs1" using on_change_obj by blast
  with Cons.IH[of kvs1] show ?case by simp
qed

lemma foldl_on_change_untouched:
  "k \<notin> {''Contract'', ''PaymentMethod'', ''InternetService'', ''tenure''} \<Longrightarrow>
   get_prop (foldl on_change (JObj kvs) evs) k = get_prop (JObj kvs) k"
proof (induction evs arbitrary: kvs)
  case Nil
  then show ?case by simp
next
  case (Cons e evs)
  obtain kvs1 where o: "on_change (JObj kvs) e = JObj kvs1" using on_change_obj by blast
  have "get_prop (foldl on_change (JObj kvs1) evs) k = get_prop (JObj kvs1) k"
    using Cons.IH[OF Cons.prems] .
  also have "\<dots> = get_prop (JObj kvs) k"
    using on_change_untouched[OF Cons.prems, of kvs e] o by simp
  finally show ?case using o by simp
qed

lemma posted_charges:
  "get_prop (posted_form events) ''MonthlyCharges'' = JNum 70"
  "get_prop (posted_form events) ''TotalCharges'' = JNum 70"
  unfolding posted_form_def initial_formData_def
  by (subst foldl_on_change_untouched; simp)+

lemma posted_tenure:
  "get_prop (posted_form (events @ [ChangeTenure v])) ''tenure'' = js_parseInt v"
proof -
  obtain kvs where "foldl on_change initial_formData events = JObj kvs"
    unfolding initial_formData_def using foldl_on_change_obj by blast
  then show ?thesis by (simp add: posted_form_def)
qed

text \<open>
  Claim C4, as amended. Neither path checks a sign. A customer that \<open>loadData\<close> adds to the
  repository is the result of parsing one line after the header, and it satisfies the invariant
  (tenure, monthly charge and total charge non-negative) exactly when the values of its row
  are non-negative, a blank total charge counting as 0. The form posted to \<open>/api/predict\<close>
  always carries the monthly and total charge 70 it starts with, and as tenure whatever
  \<open>parseInt\<close> makes of the last input.
\<close>

theorem ingested_record_values:
  "(c \<in> set (loadData pd csv repo) \<longrightarrow>
      c \<in> set repo \<or> (\<exists>ls. csv = Some ls \<and> (\<exists>l\<in>set (drop 1 ls). parse_line pd l = Inr c))) \<and>
   (parse_line pd line = Inr c \<longrightarrow> (record_invariant c \<longleftrightarrow> row_values_nonneg pd line)) \<and>
   get_prop (posted_form events) ''MonthlyCharges'' = JNum 70 \<and>
   get_prop (posted_form events) ''TotalCharges'' = JNum 70 \<and>
   get_prop (posted_form (events @ [ChangeTenure v])) ''tenure'' = js_parseInt v"
  using loadData_members[of c pd csv repo] record_invariant_iff_row[of pd line c]
  by (simp add: posted_charges posted_tenure)

lemma load_negative:
  "loadData decimal_literal (Some [csv_header, row_negative_tenure]) [] = [customer_negative_tenure]"
  by (simp add: loadData_def count_def try_load_def parse_negative saveAll_def)

lemma js_parseInt_samples: "js_parseInt ''-5'' = JNum (- 5)" "js_parseInt ''12'' = JNum 12"
  by (simp_all add: js_parseInt_def js_whitespace_def radix_digit_def)

text \<open>
  Claim C4 as stated fails: a row whose tenure column is \<open>-1\<close> is loaded and stored with
  tenure \<open>-1\<close>, and the form posts tenure \<open>-5\<close> when that is typed.
\<close>

theorem ingested_record_negative_counterexample:
  "loadData decimal_literal (Some [csv_header, row_negative_tenure]) [] = [customer_negative_tenure] \<and>
   tenure customer_negative_tenure = - 1 \<and>
   \<not> record_invariant customer_negative_tenure \<and>
   get_prop (posted_form [ChangeTenure ''-5'']) ''tenure'' = JNum (- 5)"
  by (simp add: load_negative customer_negative_tenure_def record_invariant_def
      posted_form_def initial_formData_def js_parseInt_samples)

theorem ingested_record_values_witness:
  "customer_plain \<in> set (loadData decimal_literal (Some [csv_header, row_plain]) []) \<and>
   parse_line decimal_literal row_plain = Inr customer_plain \<and>
   record_invariant customer_plain \<and> row_values_nonneg decimal_literal row_plain \<and>
   get_prop (posted_form [ChangeContract ''Two year'', ChangeTenure ''12'']) ''tenure'' = JNum 12"
  using ingested_record_values[of customer_plain decimal_literal "Some [csv_header, row_plain]" "[]"
      row_plain "[ChangeContract ''Two year'']" "''12''"]
  by (simp add: load_plain parse_plain record_invariant_def customer_plain_def js_parseInt_samples)

section \<open>Properties of the authentication context\<close>

lemma auth_inv_commit: "auth_inv (commit s) \<longleftrightarrow> (effect_deps s = Some (token s) \<longrightarrow> auth_inv s)"
  by (cases "token s") (auto simp: auth_inv_def commit_def token_effect_def)

lemma commit_set_token: "auth_inv s \<Longrightarrow> auth_inv (commit (set_token t s))"
  unfolding auth_inv_commit
  by (auto simp: auth_inv_def set_token_def)

lemma commit_clear_token: "auth_inv s \<Longrightarrow> auth_inv (commit (clear_token s))"
  unfolding auth_inv_commit
  by (auto simp: auth_inv_def clear_token_def)

lemma auth_inv_init: "auth_inv (commit (init_v1 st))" "auth_inv (commit (init_v2 st))"
  by (simp_all add: auth_inv_commit init_v1_def init_v2_def)

lemma auth_inv_step_v1: "auth_inv s \<Longrightarrow> auth_inv (step_v1 s e)"
  by (cases e) (auto simp: login_v1_def logout_def commit_set_token commit_clear_token
                     split: login_response.splits)

lemma auth_inv_step_v2: "auth_inv s \<Longrightarrow> auth_inv (step_v2 s e)"
  by (cases e) (auto simp: login_v2_def logout_def commit_set_token commit_clear_token
                     split: login_response.splits)

lemma auth_inv_foldl_v1: "auth_inv s \<Longrightarrow> auth_inv (foldl step_v1 s events)"
  by (induction events arbitrary: s) (simp_all add: auth_inv_step_v1)

lemma auth_inv_foldl_v2: "auth_inv s \<Longrightarrow> auth_inv (foldl step_v2 s events)"
  by (induction events arbitrary: s) (simp_all add: auth_inv_step_v2)

lemma isAuthenticated_iff: "isAuthenticated s \<longleftrightarrow> (\<exists>t. token s = Str t \<and> t \<noteq> [])"
  by (cases "token s") (simp_all add: isAuthenticated_def)

lemma auth_inv_header:
  "auth_inv s \<Longrightarrow>
   authorization s = (if isAuthenticated s then Some (''Bearer '' @ tok_string (token s)) else None)"
  by (cases "token s") (auto simp: auth_inv_def isAuthenticated_def)

text \<open>
  Claim C10. In both versions of the provider every committed state of a session (mount, then
  any logins and logouts) satisfies the invariant, and each login and logout preserves it;
  \<open>isAuthenticated\<close> holds exactly when the token is a non-empty string, and in a state
  satisfying the invariant the \<open>Authorization\<close> header is \<open>Bearer\<close> followed by the token
  when \<open>isAuthenticated\<close> holds and is absent otherwise.
\<close>

theorem auth_state_invariant:
  "auth_inv (session_v1 st events) \<and> auth_inv (session_v2 st events) \<and>
   (auth_inv s \<longrightarrow> auth_inv (snd (login_v1 r s)) \<and> auth_inv (snd (login_v2 r s)) \<and>
                    auth_inv (logout s)) \<and>
   (isAuthenticated s \<longleftrightarrow> (\<exists>t. token s = Str t \<and> t \<noteq> [])) \<and>
   (auth_inv s \<longrightarrow>
      authorization s =
        (if isAuthenticated s then Some (''Bearer '' @ tok_string (token s)) else None))"
proof (intro conjI)
  show "auth_inv (session_v1 st events)"
    unfolding session_v1_def by (rule auth_inv_foldl_v1) (rule auth_inv_init)
  show "auth_inv (session_v2 st events)"
    unfolding session_v2_def by (rule auth_inv_foldl_v2) (rule auth_inv_init)
  show "auth_inv s \<longrightarrow> auth_inv (snd (login_v1 r s)) \<and> auth_inv (snd (login_v2 r s)) \<and>
                    auth_inv (logout s)"
    using auth_inv_step_v1[of s "Login r"] auth_inv_step_v2[of s "Login r"]
      auth_inv_step_v1[of s Logout] by simp
  show "isAuthenticated s \<longleftrightarrow> (\<exists>t. token s = Str t \<and> t \<noteq> [])"
    by (rule isAuthenticated_iff)
  show "auth_inv s \<longrightarrow>
      authorization s =
        (if isAuthenticated s then Some (''Bearer '' @ tok_string (token s)) else None)"
    using auth_inv_header by blast
qed

theorem auth_state_invariant_witness:
  "auth_inv logged_in \<and> isAuthenticated logged_in \<and>
   authorization logged_in = Some ''Bearer abc'' \<and>
   session_v1 (Some ''abc'') [] = logged_in \<and>
   logout logged_in = \<lparr> token = Null, user = None, authorization = None, stored = None,
                         effect_deps = Some Null \<rparr> \<and>
   auth_inv (logout logged_in) \<and> \<not> isAuthenticated (logout logged_in) \<and>
   authorization (snd (login_v2 (PostOk (Str ''xyz'')) (logout logged_in))) = Some ''Bearer xyz''"
  using auth_state_invariant[of "Some ''abc''" "[]" logged_in "PostOk (Str ''xyz'')"]
    auth_state_invariant[of None "[]" "logout logged_in" "PostOk (Str ''xyz'')"]
  by (simp add: logged_in_def session_v1_def init_v1_def stored_tok_def commit_def token_effect_def
      logout_def clear_token_def isAuthenticated_def login_v2_def set_token_def auth_inv_def)

text \<open>
  Between \<open>setToken\<close> and the run of the effect the header still belongs to the previous
  token; the invariant is one of committed states.
\<close>

lemma stale_header_before_commit:
  "token (set_token (Str ''xyz'') (logout logged_in)) = Str ''xyz'' \<and>
   authorization (set_token (Str ''xyz'') (logout logged_in)) = None"
  by (simp add: logged_in_def logout_def clear_token_def commit_def token_effect_def set_token_def)

section \<open>Properties of the prediction core and the analyzer\<close>

lemma rnd_error:
  assumes "rounds_like_double rnd" and "\<bar>x\<bar> \<le> M"
  shows "\<bar>rnd x - x\<bar> \<le> M / 2 ^ 53"
proof -
  have "\<bar>rnd x - x\<bar> \<le> \<bar>x\<bar> / 2 ^ 53" using assms(1) by (simp add: rounds_like_double_def)
  also have "\<dots> \<le> M / 2 ^ 53" using assms(2) by (simp add: divide_right_mono)
  finally show ?thesis .
qed

lemma quotient_error:
  fixes s W N e1 e2 :: real
  assumes s: "\<bar>s - N\<bar> \<le> e1" and W: "\<bar>W - 4\<bar> \<le> e2" and N: "0 \<le> N" "N \<le> 4" and e2: "e2 \<le> 1"
  shows "\<bar>s / W - N / 4\<bar> \<le> (4 * e1 + 4 * e2) / 12"
proof -
  have W3: "3 \<le> W" using W e2 by linarith
  then have Wpos: "0 < W" by linarith
  have eq: "s / W - N / 4 = (4 * (s - N) + N * (4 - W)) / (4 * W)"
    using Wpos by (simp add: field_simps)
  have "\<bar>N * (4 - W)\<bar> = N * \<bar>4 - W\<bar>" using N(1) by (simp add: abs_mult)
  also have "\<dots> \<le> 4 * \<bar>4 - W\<bar>" using N(2) by (simp add: mult_right_mono)
  also have "\<dots> \<le> 4 * e2" using W by (simp add: abs_minus_commute)
  finally have n2: "\<bar>N * (4 - W)\<bar> \<le> 4 * e2" .
  define d where "d = s - N"
  define t where "t = N * (4 - W)"
  have "\<bar>d\<bar> \<le> e1" "\<bar>t\<bar> \<le> 4 * e2" using s n2 by (simp_all add: d_def t_def)
  then have "\<bar>4 * d + t\<bar> \<le> 4 * e1 + 4 * e2" by linarith
  then have num: "\<bar>4 * (s - N) + N * (4 - W)\<bar> \<le> 4 * e1 + 4 * e2"
    by (simp only: d_def t_def)
  have "\<bar>s / W - N / 4\<bar> = \<bar>4 * (s - N) + N * (4 - W)\<bar> / (4 * W)"
    unfolding eq using Wpos by (simp add: abs_divide)
  also have "\<dots> \<le> (4 * e1 + 4 * e2) / (4 * W)"
    using num Wpos by (simp add: divide_right_mono)
  also have "\<dots> \<le> (4 * e1 + 4 * e2) / 12"
  proof -
    have "0 \<le> 4 * e1 + 4 * e2" using num by linarith
    then show ?thesis using W3 by (intro divide_left_mono) simp_all
  qed
  finally show ?thesis .
qed

lemma score_rounded_error:
  assumes R: "rounds_like_double rnd"
    and pa: "0 \<le> pa" "pa \<le> 1" and pb: "0 \<le> pb" "pb \<le> 1" and pc: "0 \<le> pc" "pc \<le> (1::real)"
  shows "\<bar>rnd (rnd (rnd (rnd (2 * pa) + rnd (1 * pb)) + rnd (1 * pc)) / rnd (rnd (2 + 1) + 1))
           - (2 * pa + 1 * pb + 1 * pc) / 4\<bar> \<le> 1 / 10 ^ 9"
proof -
  define u :: real where "u = 1 / 2 ^ 53"
  have u0: "0 \<le> u" and u1: "u \<le> 1 / 10000000000" by (simp_all add: u_def)
  define a1 where "a1 = rnd (2 * pa)"
  define a2 where "a2 = rnd (1 * pb)"
  define a3 where "a3 = rnd (1 * pc)"
  define s1 where "s1 = rnd (a1 + a2)"
  define s2 where "s2 = rnd (s1 + a3)"
  define w1 where "w1 = rnd (2 + 1)"
  define W where "W = rnd (w1 + 1)"
  define q where "q = s2 / W"
  define N where "N = 2 * pa + 1 * pb + 1 * pc"
  have e1: "\<bar>a1 - 2 * pa\<bar> \<le> 2 * u"
    using rnd_error[OF R, of "2 * pa" 2] pa by (simp add: a1_def u_def)
  have e2: "\<bar>a2 - pb\<bar> \<le> 1 * u"
    using rnd_error[OF R, of "1 * pb" 1] pb by (simp add: a2_def u_def)
  have e3: "\<bar>a3 - pc\<bar> \<le> 1 * u"
    using rnd_error[OF R, of "1 * pc" 1] pc by (simp add: a3_def u_def)
  have b12: "\<bar>a1 + a2\<bar> \<le> 4" using e1 e2 pa pb u0 u1 by linarith
  have e4: "\<bar>s1 - (a1 + a2)\<bar> \<le> 4 * u"
    using rnd_error[OF R b12] by (simp add: s1_def u_def)
  have b13: "\<bar>s1 + a3\<bar> \<le> 5" using e1 e2 e3 e4 pa pb pc u0 u1 by linarith
  have e5: "\<bar>s2 - (s1 + a3)\<bar> \<le> 5 * u"
    using rnd_error[OF R b13] by (simp add: s2_def u_def)
  have es: "\<bar>s2 - N\<bar> \<le> 13 * u"
    unfolding N_def using e1 e2 e3 e4 e5 by linarith
  have e6: "\<bar>w1 - 3\<bar> \<le> 3 * u"
    using rnd_error[OF R, of "2 + 1" 3] by (simp add: w1_def u_def)
  have bw: "\<bar>w1 + 1\<bar> \<le> 5" using e6 u0 u1 by linarith
  have e7: "\<bar>W - (w1 + 1)\<bar> \<le> 5 * u"
    using rnd_error[OF R bw] by (simp add: W_def u_def)
  have eW: "\<bar>W - 4\<bar> \<le> 8 * u" using e6 e7 by linarith
  have N04: "0 \<le> N" "N \<le> 4" using pa pb pc by (simp_all add: N_def)
  have "8 * u \<le> 1" using u1 by simp
  from quotient_error[OF es eW N04 this]
  have eq: "\<bar>q - N / 4\<bar> \<le> 7 * u" by (simp add: q_def)
  have bq: "\<bar>q\<bar> \<le> 2" using eq N04 u0 u1 by linarith
  have e8: "\<bar>rnd q - q\<bar> \<le> 2 * u" using rnd_error[OF R bq] by (simp add: u_def)
  have "\<bar>rnd q - N / 4\<bar> \<le> 9 * u" using e8 eq by linarith
  also have "\<dots> \<le> 1 / 10 ^ 9" using u1 by simp
  finally show ?thesis
    by (simp add: q_def s2_def s1_def a1_def a2_def a3_def W_def w1_def N_def)
qed

text \<open>
  Claim C1. With the weights (2, 1, 1) in the bundle, the score of a vector is
  \<open>(2 * p_a + 1 * p_b + 1 * p_c) / 4\<close> for the three probabilities of the base classifiers,
  and the same average computed with a rounding of relative error \<open>2^-53\<close> after every
  operation stays within \<open>1e-9\<close> of it when the three are probabilities. The weights are
  read from the bundle (\<open>score_general\<close> gives the same average for any weights).
\<close>

theorem ensemble_weighted_average:
  assumes "weights b = (2, 1, 1)"
  shows "score v b =
           (2 * probability (classifier_a b) v + 1 * probability (classifier_b b) v
              + 1 * probability (classifier_c b) v) / 4
         \<and> (bundle_ok b \<and> rounds_like_double rnd \<longrightarrow>
              \<bar>score_rounded rnd v b -
                 (2 * probability (classifier_a b) v + 1 * probability (classifier_b b) v
                    + 1 * probability (classifier_c b) v) / 4\<bar> \<le> 1 / 10 ^ 9)"
proof (intro conjI impI)
  show "score v b =
           (2 * probability (classifier_a b) v + 1 * probability (classifier_b b) v
              + 1 * probability (classifier_c b) v) / 4"
    using assms by (simp add: score_def)
next
  assume h: "bundle_ok b \<and> rounds_like_double rnd"
  then have p: "0 \<le> probability (classifier_a b) v" "probability (classifier_a b) v \<le> 1"
    "0 \<le> probability (classifier_b b) v" "probability (classifier_b b) v \<le> 1"
    "0 \<le> probability (classifier_c b) v" "probability (classifier_c b) v \<le> 1"
    by (simp_all add: bundle_ok_def)
  from h have R: "rounds_like_double rnd" by simp
  have "score_rounded rnd v b =
      rnd (rnd (rnd (rnd (2 * probability (classifier_a b) v)
                     + rnd (1 * probability (classifier_b b) v))
                + rnd (1 * probability (classifier_c b) v))
           / rnd (rnd (2 + 1) + 1))"
    using assms by (simp add: score_rounded_def)
  then show "\<bar>score_rounded rnd v b -
                 (2 * probability (classifier_a b) v + 1 * probability (classifier_b b) v
                    + 1 * probability (classifier_c b) v) / 4\<bar> \<le> 1 / 10 ^ 9"
    using score_rounded_error[OF R p] by simp
qed

lemma score_general:
  "weights b = (w_a, w_b, w_c) \<Longrightarrow>
   score v b = (w_a * probability (classifier_a b) v + w_b * probability (classifier_b b) v
                  + w_c * probability (classifier_c b) v) / (w_a + w_b + w_c)"
  by (simp add: score_def)

lemma score_range:
  assumes "bundle_ok b"
  shows "0 \<le> score v b \<and> score v b \<le> 1"
proof -
  obtain w_a w_b w_c where w: "weights b = (w_a, w_b, w_c)" by (cases "weights b") auto
  define pa where "pa = probability (classifier_a b) v"
  define pb where "pb = probability (classifier_b b) v"
  define pc where "pc = probability (classifier_c b) v"
  from assms w have wa: "0 \<le> w_a" and wb: "0 \<le> w_b" and wc: "0 \<le> w_c"
    and pos: "0 < w_a + w_b + w_c"
    by (simp_all add: bundle_ok_def)
  from assms have pa: "0 \<le> pa" "pa \<le> 1" and pb: "0 \<le> pb" "pb \<le> 1" and pc: "0 \<le> pc" "pc \<le> 1"
    by (simp_all add: bundle_ok_def pa_def pb_def pc_def)
  have s: "score v b = (w_a * pa + w_b * pb + w_c * pc) / (w_a + w_b + w_c)"
    by (simp add: score_def w pa_def pb_def pc_def)
  have lo: "0 \<le> w_a * pa + w_b * pb + w_c * pc"
    using wa wb wc pa pb pc by (simp add: add_nonneg_nonneg)
  have "w_a * pa \<le> w_a" "w_b * pb \<le> w_b" "w_c * pc \<le> w_c"
    using wa wb wc pa pb pc by (simp_all add: mult_left_le)
  then have hi: "w_a * pa + w_b * pb + w_c * pc \<le> w_a + w_b + w_c" by linarith
  show ?thesis using lo hi pos by (simp add: s)
qed


lemma all_cat_fields_complete: "f \<in> set all_cat_fields"
  by (cases f) (simp_all add: all_cat_fields_def)

lemma in_vocabulary_iff:
  "in_vocabulary cfg r \<longleftrightarrow> (\<forall>f. categorical r f \<in> set (vocabulary cfg f))"
  by (auto simp: in_vocabulary_def list_all_iff all_cat_fields_complete)

lemma map_of_table_Some: "x \<in> fst ` set t \<Longrightarrow> \<exists>y. map_of t x = Some y"
  by (metis domD dom_map_of_conv_image_fst)

lemma derive_total:
  assumes "in_vocabulary cfg r"
  shows "\<exists>v. derive cfg r = Inr v \<and> map fst v = feature_order"
proof -
  from assms have a: "\<forall>f. categorical r f \<in> set (vocabulary cfg f)"
    by (simp add: in_vocabulary_iff)
  have c: "categorical r Contract \<in> fst ` set contract_table"
    using spec[OF a, of Contract] by (simp add: vocabulary_def)
  have p: "categorical r PaymentMethod \<in> fst ` set payment_table"
    using spec[OF a, of PaymentMethod] by (simp add: vocabulary_def)
  obtain cs where cs: "map_of contract_table (categorical r Contract) = Some cs"
    using map_of_table_Some[OF c] by blast
  obtain pr where pr: "map_of payment_table (categorical r PaymentMethod) = Some pr"
    using map_of_table_Some[OF p] by blast
  show ?thesis using assms cs pr by (simp add: derive_def feature_order_def)
qed

lemma derive_rejects: "\<not> in_vocabulary cfg r \<Longrightarrow> derive cfg r = Inl FeatureError"
  by (simp add: derive_def)

lemma predict_rejects: "\<not> in_vocabulary (deriver cfg) r \<Longrightarrow> predict cfg b r = Inl FeatureError"
  by (simp add: predict_def derive_def bindE_def)

text \<open>
  Claim C6. A record one of whose categorical fields holds a value outside the vocabulary
  of the field makes \<open>derive\<close>, and with it \<open>predict\<close>, raise FeatureError; a record all of
  whose categorical values are in their vocabularies is derived without failure, into a
  vector in the fixed feature order.
\<close>

theorem derive_vocabulary_guard:
  "(categorical r f \<notin> set (vocabulary (deriver cfg) f) \<longrightarrow>
      derive (deriver cfg) r = Inl FeatureError \<and> predict cfg b r = Inl FeatureError) \<and>
   ((\<forall>g. categorical r g \<in> set (vocabulary (deriver cfg) g)) \<longrightarrow>
      (\<exists>v. derive (deriver cfg) r = Inr v \<and> map fst v = feature_order))"
proof (intro conjI impI)
  assume "categorical r f \<notin> set (vocabulary (deriver cfg) f)"
  then have n: "\<not> in_vocabulary (deriver cfg) r" by (auto simp: in_vocabulary_iff)
  then show "derive (deriver cfg) r = Inl FeatureError" by (rule derive_rejects)
  from n show "predict cfg b r = Inl FeatureError" by (rule predict_rejects)
next
  assume "\<forall>g. categorical r g \<in> set (vocabulary (deriver cfg) g)"
  then have "in_vocabulary (deriver cfg) r" by (simp add: in_vocabulary_iff)
  then show "\<exists>v. derive (deriver cfg) r = Inr v \<and> map fst v = feature_order"
    by (rule derive_total)
qed

lemma risky_in_vocabulary: "categorical risky_customer g \<in> set (vocabulary sample_deriver g)"
  by (cases g) (simp_all add: risky_customer_def vocabulary_def sample_deriver_def
      telco_vocabulary_def contract_table_def payment_table_def)

lemma risky_in_vocabulary': "in_vocabulary sample_deriver risky_customer"
  by (simp add: in_vocabulary_iff risky_in_vocabulary)

lemma unknown_contract:
  "categorical unknown_contract_customer Contract = ''Three year''"
  "''Three year'' \<notin> set (vocabulary sample_deriver Contract)"
  by (simp_all add: unknown_contract_customer_def vocabulary_def contract_table_def)

theorem derive_vocabulary_guard_witness:
  "categorical unknown_contract_customer Contract \<notin> set (vocabulary (deriver sample_config) Contract) \<and>
   derive (deriver sample_config) unknown_contract_customer = Inl FeatureError \<and>
   predict sample_config sample_bundle unknown_contract_customer = Inl FeatureError \<and>
   (\<forall>g. categorical risky_customer g \<in> set (vocabulary (deriver sample_config) g)) \<and>
   (\<exists>v. derive (deriver sample_config) risky_customer = Inr v \<and> map fst v = feature_order)"
  using derive_vocabulary_guard[of unknown_contract_customer Contract sample_config sample_bundle]
    derive_vocabulary_guard[of risky_customer Contract sample_config sample_bundle]
    unknown_contract risky_in_vocabulary
  by (simp add: sample_config_def)

text \<open>
  Claim C7. A segment with fewer members than the minimum sample size gives
  InsufficientDataError instead of a churn rate, and so do both tests when the churned or
  the not-churned group is below the minimum; groups of at least the minimum size give a
  result.
\<close>

theorem undersized_group_raises:
  "(length (filter (\<lambda>m. snd seg (member m)) population) < min_sample_size cfg \<longrightarrow>
      segment_churn_rate cfg seg population = Inl InsufficientDataError) \<and>
   (min_sample_size cfg \<le> length (filter (\<lambda>m. snd seg (member m)) population) \<longrightarrow>
      segment_churn_rate cfg seg population =
        Inr \<lparr> label = fst seg,
              churn_rate = churn_rate_percent (filter (\<lambda>m. snd seg (member m)) population) \<rparr>) \<and>
   (length (filter churned population) < min_sample_size cfg \<or>
    length (filter (\<lambda>m. \<not> churned m) population) < min_sample_size cfg \<longrightarrow>
      mann_whitney_test cfg var population = Inl InsufficientDataError \<and>
      chi_square_test cfg cvar population = Inl InsufficientDataError) \<and>
   (min_sample_size cfg \<le> length (filter churned population) \<and>
    min_sample_size cfg \<le> length (filter (\<lambda>m. \<not> churned m) population) \<longrightarrow>
      \<not> isl (mann_whitney_test cfg var population) \<and>
      \<not> isl (chi_square_test cfg cvar population))"
  by (auto simp: segment_churn_rate_def mann_whitney_test_def chi_square_test_def Let_def)

lemma three_in_segment:
  "filter (\<lambda>m. snd short_tenure_segment (member m)) three_customers = three_customers"
  by (simp add: three_customers_def short_tenure_segment_def risky_customer_def)

theorem undersized_group_raises_witness:
  "length (filter (\<lambda>m. snd short_tenure_segment (member m)) three_customers) = 3 \<and>
   min_sample_size sample_analyzer = 5 \<and>
   segment_churn_rate sample_analyzer short_tenure_segment three_customers
     = Inl InsufficientDataError \<and>
   mann_whitney_test sample_analyzer (''tenure'', \<lambda>r. real_of_int (tenure_months r)) three_customers
     = Inl InsufficientDataError \<and>
   chi_square_test sample_analyzer (''contract'', Contract) three_customers
     = Inl InsufficientDataError \<and>
   segment_churn_rate sample_analyzer short_tenure_segment six_customers
     = Inr \<lparr> label = ''tenure < 6 months'', churn_rate = 667 / 10 \<rparr>"
proof -
  have six: "filter (\<lambda>m. snd short_tenure_segment (member m)) six_customers = six_customers"
    by (simp add: six_customers_def three_in_segment)
  have rate: "churn_rate_percent six_customers = 667 / 10"
    by (simp add: churn_rate_percent_def six_customers_def three_customers_def round1_def
        round_def floor_divide_of_nat_eq)
  have l3: "length three_customers = 3" "length six_customers = 6"
    "length (filter churned three_customers) = 2"
    by (simp_all add: three_customers_def six_customers_def)
  have m5: "min_sample_size sample_analyzer = 5" by (simp add: sample_analyzer_def)
  have lbl: "fst short_tenure_segment = ''tenure < 6 months''"
    by (simp add: short_tenure_segment_def)
  show ?thesis
    using undersized_group_raises[of short_tenure_segment three_customers sample_analyzer
        "(''tenure'', \<lambda>r. real_of_int (tenure_months r))" "(''contract'', Contract)"]
      undersized_group_raises[of short_tenure_segment six_customers sample_analyzer
        "(''tenure'', \<lambda>r. real_of_int (tenure_months r))" "(''contract'', Contract)"]
    by (simp add: three_in_segment six rate l3 m5 lbl)
qed


lemma sample_weights: "weights sample_bundle = (2, 1, 1)"
  by (simp add: sample_bundle_def)

lemma sample_probabilities:
  "probability (classifier_a sample_bundle) [(''contract_stability'', 1)] = 9 / 10"
  "probability (classifier_b sample_bundle) [(''contract_stability'', 1)] = 8 / 10"
  "probability (classifier_c sample_bundle) [(''contract_stability'', 1)] = 7 / 10"
  by (simp_all add: sample_bundle_def stability_classifier_def)

lemma bundle_ok_sample: "bundle_ok sample_bundle"
  by (simp add: bundle_ok_def sample_bundle_def stability_classifier_def split: option.splits)

lemma sample_rounding_ok: "rounds_like_double sample_rounding"
  by (simp add: rounds_like_double_def sample_rounding_def algebra_simps abs_mult)

theorem ensemble_weighted_average_witness:
  "weights sample_bundle = (2, 1, 1) \<and> bundle_ok sample_bundle \<and>
   rounds_like_double sample_rounding \<and>
   score [(''contract_stability'', 1)] sample_bundle = 33 / 40 \<and>
   \<bar>score_rounded sample_rounding [(''contract_stability'', 1)] sample_bundle - 33 / 40\<bar>
     \<le> 1 / 10 ^ 9"
  using ensemble_weighted_average[OF sample_weights, of "[(''contract_stability'', 1)]"
      sample_rounding]
  by (simp add: sample_weights sample_probabilities bundle_ok_sample sample_rounding_ok)

lemma generate_length: "length (generate table N lvl factors r) \<le> N"
  by (simp add: generate_def)

lemma explain_length: "length (explain v p b) \<le> 5"
  by (simp add: explain_def)

lemma derive_risky:
  "derive sample_deriver risky_customer =
     Inr [(''customer_value_score'', 122 / 5), (''service_count'', 1),
          (''premium_service_count'', 0), (''contract_stability'', 1),
          (''payment_risk'', 3), (''tenure_group'', 1), (''charge_ratio'', 1),
          (''senior_and_high_monthly'', 0), (''fiber_without_security'', 1)]"
  by (simp add: derive_def risky_in_vocabulary' contract_table_def payment_table_def)
     (simp add: risky_customer_def sample_deriver_def customer_value_score_def charge_ratio_def
        fiber_without_security_def)

lemma risky_fields:
  "categorical risky_customer PaymentMethod = ''Electronic check''"
  "categorical risky_customer Contract = ''Month-to-month''"
  by (simp_all add: risky_customer_def)

lemma predict_risky:
  "churn_probability (projr (predict sample_config sample_bundle risky_customer)) = 33 / 40"
  "map action (suggestions (projr (predict sample_config sample_bundle risky_customer)))
     = [''auto-payment incentive'', ''long-term contract upgrade'']"
proof -
  have d: "derive (deriver sample_config) risky_customer =
     Inr [(''customer_value_score'', 122 / 5), (''service_count'', 1),
          (''premium_service_count'', 0), (''contract_stability'', 1),
          (''payment_risk'', 3), (''tenure_group'', 1), (''charge_ratio'', 1),
          (''senior_and_high_monthly'', 0), (''fiber_without_security'', 1)]"
    using derive_risky by (simp add: sample_config_def)
  have rl: "rules sample_config = sample_rules" "max_actions sample_config = 3"
    by (simp_all add: sample_config_def)
  show "churn_probability (projr (predict sample_config sample_bundle risky_customer)) = 33 / 40"
    unfolding predict_def d
    by (simp add: bindE_def Let_def score_def sample_bundle_def stability_classifier_def)
  show "map action (suggestions (projr (predict sample_config sample_bundle risky_customer)))
     = [''auto-payment incentive'', ''long-term contract upgrade'']"
    unfolding predict_def d
    by (simp add: bindE_def Let_def generate_def rl sample_rules_def risky_fields
        autopay_action_def upgrade_action_def)
qed

lemma dedup_subseq: "subseq (dedup_by_action seen as) as"
  by (induction as arbitrary: seen) auto

lemma dedup_fresh: "\<forall>x\<in>set (dedup_by_action seen as). action x \<notin> set seen"
proof (induction as arbitrary: seen)
  case Nil
  then show ?case by simp
next
  case (Cons a as)
  from Cons.IH[of seen] Cons.IH[of "action a # seen"] show ?case by auto
qed

lemma dedup_distinct: "distinct (map action (dedup_by_action seen as))"
proof (induction as arbitrary: seen)
  case Nil
  then show ?case by simp
next
  case (Cons a as)
  show ?case
  proof (cases "action a \<in> set seen")
    case True
    then show ?thesis using Cons.IH by simp
  next
    case False
    have "action a \<notin> action ` set (dedup_by_action (action a # seen) as)"
      using dedup_fresh[of "action a # seen" as] by auto
    then show ?thesis using False Cons.IH by simp
  qed
qed

lemma dedup_set: "set (dedup_by_action seen as) \<subseteq> set as"
  by (induction as arbitrary: seen) auto

lemma dedup_first: "dedup_by_action [] (a # as) \<noteq> []"
  by simp

lemma generate_subseq: "subseq (generate table N lvl factors r) (map snd table)"
proof -
  let ?hold = "filter (\<lambda>rl. fst rl lvl factors r) table"
  have "subseq (generate table N lvl factors r) (dedup_by_action [] (map snd ?hold))"
    unfolding generate_def by (rule sublist_imp_subseq) (rule sublist_take)
  also have "subseq \<dots> (map snd ?hold)" by (rule dedup_subseq)
  also have "subseq \<dots> (map snd table)" by (rule subseq_map) (rule subseq_filter_left)
  finally show ?thesis .
qed

lemma generate_distinct: "distinct (map action (generate table N lvl factors r))"
  unfolding generate_def take_map[symmetric] by (rule distinct_take) (rule dedup_distinct)

lemma generate_member:
  assumes "a \<in> set (generate table N lvl factors r)"
  shows "\<exists>rl\<in>set table. snd rl = a \<and> fst rl lvl factors r"
proof -
  have "a \<in> set (dedup_by_action [] (map snd (filter (\<lambda>rl. fst rl lvl factors r) table)))"
    using assms unfolding generate_def by (rule in_set_takeD)
  then have "a \<in> set (map snd (filter (\<lambda>rl. fst rl lvl factors r) table))"
    using dedup_set by blast
  then show ?thesis by auto
qed

lemma generate_first:
  assumes "\<exists>rl\<in>set table. fst rl lvl factors r" and "0 < N"
  shows "generate table N lvl factors r \<noteq> [] \<and>
         hd (generate table N lvl factors r)
           = snd (hd (filter (\<lambda>rl. fst rl lvl factors r) table))"
proof -
  from assms(1) obtain x xs where f: "filter (\<lambda>rl. fst rl lvl factors r) table = x # xs"
    by (cases "filter (\<lambda>rl. fst rl lvl factors r) table") (auto simp: filter_empty_conv)
  from assms(2) obtain n where n: "N = Suc n" by (cases N) auto
  show ?thesis by (simp add: generate_def f n)
qed

text \<open>
  Claim C2. For every record within the vocabularies, and a well-formed bundle, \<open>predict\<close>
  returns a PredictionResult whose \<open>churn_probability\<close> lies in [0, 1] and whose
  \<open>suggestions\<close> are an ordered sequence of StrategyAction records (by their type each with
  \<open>action\<close>, \<open>priority\<close>, \<open>details\<close> and \<open>expected_impact\<close>): they follow the order of the rule
  table, are at most \<open>max_actions\<close>, have distinct action types, each is the action of a rule
  whose condition holds of the result's risk level, its risk factors and the record, and when
  some rule holds and the cap is positive the first is the action of the first such rule.
\<close>

theorem predict_result_shape:
  assumes "in_vocabulary (deriver cfg) r" and "bundle_ok b"
  shows "\<exists>res. predict cfg b r = Inr res \<and>
           0 \<le> churn_probability res \<and> churn_probability res \<le> 1 \<and>
           subseq (suggestions res) (map snd (rules cfg)) \<and>
           length (suggestions res) \<le> max_actions cfg \<and>
           distinct (map action (suggestions res)) \<and>
           (\<forall>a\<in>set (suggestions res).
              \<exists>rl\<in>set (rules cfg). snd rl = a \<and> fst rl (risk_level res) (risk_factors res) r) \<and>
           ((\<exists>rl\<in>set (rules cfg). fst rl (risk_level res) (risk_factors res) r) \<and>
            0 < max_actions cfg \<longrightarrow>
              suggestions res \<noteq> [] \<and>
              hd (suggestions res)
                = snd (hd (filter (\<lambda>rl. fst rl (risk_level res) (risk_factors res) r) (rules cfg))))"
proof -
  obtain v where v: "derive (deriver cfg) r = Inr v"
    using derive_total[OF assms(1)] by blast
  define res where "res = projr (predict cfg b r)"
  have p: "predict cfg b r = Inr res"
    by (simp add: res_def predict_def v bindE_def Let_def)
  have cp: "churn_probability res = score v b"
    by (simp add: res_def predict_def v bindE_def Let_def)
  have sg: "suggestions res =
      generate (rules cfg) (max_actions cfg) (risk_level res) (risk_factors res) r"
    by (simp add: res_def predict_def v bindE_def Let_def)
  have rng: "0 \<le> churn_probability res \<and> churn_probability res \<le> 1"
    unfolding cp by (rule score_range[OF assms(2)])
  have sub: "subseq (suggestions res) (map snd (rules cfg))"
    unfolding sg by (rule generate_subseq)
  have len: "length (suggestions res) \<le> max_actions cfg"
    unfolding sg by (rule generate_length)
  have dis: "distinct (map action (suggestions res))"
    unfolding sg by (rule generate_distinct)
  have mem: "\<forall>a\<in>set (suggestions res).
      \<exists>rl\<in>set (rules cfg). snd rl = a \<and> fst rl (risk_level res) (risk_factors res) r"
    using generate_member[of _ "rules cfg" "max_actions cfg" "risk_level res" "risk_factors res" r]
    unfolding sg[symmetric] by blast
  have fst: "(\<exists>rl\<in>set (rules cfg). fst rl (risk_level res) (risk_factors res) r) \<and>
            0 < max_actions cfg \<longrightarrow>
              suggestions res \<noteq> [] \<and>
              hd (suggestions res)
                = snd (hd (filter (\<lambda>rl. fst rl (risk_level res) (risk_factors res) r) (rules cfg)))"
    using generate_first[of "rules cfg" "risk_level res" "risk_factors res" r "max_actions cfg"]
    unfolding sg[symmetric] by blast
  show ?thesis using p rng sub len dis mem fst by blast
qed


lemma action_names:
  "action autopay_action = ''auto-payment incentive''"
  "action upgrade_action = ''long-term contract upgrade''"
  by (simp_all add: autopay_action_def upgrade_action_def)

lemma suggestions_risky:
  "suggestions (projr (predict sample_config sample_bundle risky_customer))
     = [autopay_action, upgrade_action]"
proof -
  have d: "derive (deriver sample_config) risky_customer =
     Inr [(''customer_value_score'', 122 / 5), (''service_count'', 1),
          (''premium_service_count'', 0), (''contract_stability'', 1),
          (''payment_risk'', 3), (''tenure_group'', 1), (''charge_ratio'', 1),
          (''senior_and_high_monthly'', 0), (''fiber_without_security'', 1)]"
    using derive_risky by (simp add: sample_config_def)
  have rl: "rules sample_config = sample_rules" "max_actions sample_config = 3"
    by (simp_all add: sample_config_def)
  show ?thesis
    unfolding predict_def d
    by (simp add: bindE_def Let_def generate_def rl sample_rules_def risky_fields action_names)
qed

theorem predict_result_shape_witness:
  "in_vocabulary (deriver sample_config) risky_customer \<and> bundle_ok sample_bundle \<and>
   (\<exists>res. predict sample_config sample_bundle risky_customer = Inr res \<and>
          churn_probability res = 33 / 40 \<and>
          0 \<le> churn_probability res \<and> churn_probability res \<le> 1 \<and>
          suggestions res = [autopay_action, upgrade_action] \<and>
          subseq (suggestions res) (map snd (rules sample_config)) \<and>
          distinct (map action (suggestions res)))"
proof -
  have iv: "in_vocabulary (deriver sample_config) risky_customer"
    by (simp add: sample_config_def risky_in_vocabulary')
  from predict_result_shape[OF iv bundle_ok_sample]
  obtain res where r: "predict sample_config sample_bundle risky_customer = Inr res"
    and rng: "0 \<le> churn_probability res" "churn_probability res \<le> 1"
    and sub: "subseq (suggestions res) (map snd (rules sample_config))"
    and dis: "distinct (map action (suggestions res))"
    by blast
  from r have e: "res = projr (predict sample_config sample_bundle risky_customer)" by simp
  have "churn_probability res = 33 / 40" "suggestions res = [autopay_action, upgrade_action]"
    unfolding e by (rule predict_risky(1), rule suggestions_risky)
  then show ?thesis using iv bundle_ok_sample r rng sub dis by blast
qed

end
